theory Spec2Isabelle
  imports Main "HOL-Library.Sublist" "HOL-Library.Multiset"
begin

section \<open>Strings\<close>

text \<open>
  A Python \<open>str\<close> is modelled as a \<open>string\<close>; one \<open>char\<close> stands for one code point
  below 256, so \<open>length\<close> is Python's \<open>len\<close> on such strings.
\<close>

text \<open>The code points below 256 that \<open>str.strip()\<close> removes.\<close>

definition isspace :: "char \<Rightarrow> bool" where
  "isspace c = (of_char c \<in> {9, 10, 11, 12, 13, 28, 29, 30, 31, 32, 133, 160 :: nat})"

text \<open>\<open>s.strip()\<close>: leading and trailing whitespace removed.\<close>

definition strip :: "string \<Rightarrow> string" where
  "strip s = rev (dropWhile isspace (rev (dropWhile isspace s)))"

text \<open>\<open>s.split(sep)\<close> for a separator of one character; the result is never empty.\<close>

fun split_str :: "char \<Rightarrow> string \<Rightarrow> string list" where
  "split_str sep [] = [[]]"
| "split_str sep (c # cs) =
     (if c = sep then [] # split_str sep cs
      else (case split_str sep cs of
              [] \<Rightarrow> [[c]]
            | p # ps \<Rightarrow> (c # p) # ps))"

text \<open>Lower case of the ASCII letters, as the database's \<open>lower()\<close> computes it.\<close>

definition lower_char :: "char \<Rightarrow> char" where
  "lower_char c =
     (let n = (of_char c :: nat) in if 65 \<le> n \<and> n \<le> 90 then char_of (n + 32) else c)"

definition lower :: "string \<Rightarrow> string" where
  "lower s = map lower_char s"

text \<open>
  SQL \<open>LIKE\<close>: in the pattern \<open>%\<close> matches any run of characters, \<open>_\<close> exactly one
  character, every other character itself. The first argument is the pattern.
\<close>

fun like :: "string \<Rightarrow> string \<Rightarrow> bool" where
  "like [] [] = True"
| "like [] (c # cs) = False"
| "like (p # ps) [] = (p = CHR ''%'' \<and> like ps [])"
| "like (p # ps) (c # cs) =
     (if p = CHR ''%'' then like ps (c # cs) \<or> like (p # ps) cs
      else (p = CHR ''_'' \<or> p = c) \<and> like ps cs)"

text \<open>
  \<open>column.ilike(pattern)\<close>: \<open>lower(column) LIKE lower(pattern)\<close>; on a NULL column the
  predicate is not true.
\<close>

definition ilike :: "string option \<Rightarrow> string \<Rightarrow> bool" where
  "ilike col pattern =
     (case col of None \<Rightarrow> False | Some s \<Rightarrow> like (lower pattern) (lower s))"

section \<open>Validation (main.py)\<close>

text \<open>
  The validation messages, in the order of the source: invalid e-mail address; user name
  shorter than 3; user name longer than 50; password shorter than 6; password longer than
  72; passwords differ; album title required; album title longer than 200; artist
  required; artist longer than 100; release year not between 1900 and the given year.
\<close>

datatype verror =
    Invalid_email
  | Username_too_short
  | Username_too_long
  | Password_too_short
  | Password_too_long
  | Passwords_differ
  | Title_required
  | Title_too_long
  | Artist_required
  | Artist_too_long
  | Year_out_of_range int

definition validate_user_registration ::
  "string \<Rightarrow> string \<Rightarrow> string \<Rightarrow> string \<Rightarrow> verror list" where
  "validate_user_registration email username password confirm_password =
     (if email = [] \<or> CHR ''@'' \<notin> set email
         \<or> CHR ''.'' \<notin> set (last (split_str CHR ''@'' email))
      then [Invalid_email] else [])
     @ (if username = [] \<or> length username < 3 then [Username_too_short]
        else if length username > 50 then [Username_too_long] else [])
     @ (if password = [] \<or> length password < 6 then [Password_too_short]
        else if length password > 72 then [Password_too_long] else [])
     @ (if password \<noteq> confirm_password then [Passwords_differ] else [])"

text \<open>
  \<open>validate_album_data\<close>; \<open>current_year\<close> is \<open>datetime.now().year\<close>, read when a release
  year is given.
\<close>

definition validate_album_data :: "int \<Rightarrow> string \<Rightarrow> string \<Rightarrow> int option \<Rightarrow> verror list" where
  "validate_album_data current_year title artist release_year =
     (if title = [] \<or> length (strip title) = 0 then [Title_required]
      else if length title > 200 then [Title_too_long] else [])
     @ (if artist = [] \<or> length (strip artist) = 0 then [Artist_required]
        else if length artist > 100 then [Artist_too_long] else [])
     @ (case release_year of
          None \<Rightarrow> []
        | Some y \<Rightarrow>
            if y < 1900 \<or> y > current_year then [Year_out_of_range current_year] else [])"

section \<open>The persisted entities (models.py)\<close>

record user =
  u_id :: int
  u_email :: string
  u_username :: string
  u_hashed_password :: string
  u_is_active :: bool
  u_created_at :: int

record album =
  a_id :: int
  a_title :: "string option"
  a_artist :: "string option"
  a_genre :: "string option"
  a_release_year :: "int option"
  a_record_label :: "string option"
  a_country :: "string option"
  a_condition :: "string option"
  a_barcode :: "string option"
  a_notes :: "string option"
  a_created_at :: int
  a_owner_id :: "int option"

text \<open>The two tables, each in the order of insertion.\<close>

record db =
  tbl_users :: "user list"
  tbl_albums :: "album list"

section \<open>Exceptions, messages, responses\<close>

text \<open>
  The texts shown to the user: album not found; a user with this e-mail or user name
  exists; registration failed; album creation failed; album update failed; the internal
  error prefix followed by a text; validation messages joined by a semicolon; the JSON
  detail \<open>Not found\<close>.
\<close>

datatype message =
    Album_not_found
  | User_exists
  | Registration_failed
  | Album_create_failed
  | Album_update_failed
  | Internal_error string
  | Validation "verror list"
  | Not_found

text \<open>
  \<open>HTTPException(status_code, detail)\<close>, and any other exception, given by \<open>str(exc)\<close>.
\<close>

datatype exn =
    HTTPException nat message
  | Exception string

text \<open>The lines written with \<open>logger.error\<close>, each with the exception it reports.\<close>

datatype log_entry =
    Unhandled_exception string
  | Registration_error exn
  | Album_create_error exn
  | Album_update_error exn
  | Album_delete_error exn

datatype template = Register_html | Login_html | Album_detail_html | Albums_html | Error_html

datatype location = To_login | To_albums | To_album int

text \<open>
  A response: a rendered template with its status code, its \<open>error\<close> text and the albums
  it shows; a redirect with its status code and the access-token cookie it sets; a JSON
  body with its status code. The echo of a submitted form in the context is left out.
\<close>

datatype response =
    TemplateResponse template nat "message option" "album list"
  | RedirectResponse location nat "string option"
  | JSONResponse nat message

fun status_code :: "response \<Rightarrow> nat" where
  "status_code (TemplateResponse t c e shown) = c"
| "status_code (RedirectResponse l c k) = c"
| "status_code (JSONResponse c m) = c"

record request =
  path :: string
  cookies :: "string \<rightharpoonup> string"

text \<open>
  What a handler reads from outside the store: the clock (\<open>datetime.utcnow()\<close> as a
  timestamp, \<open>datetime.now().year\<close>), the functions of the authentication module
  (\<open>decode_token\<close>, \<open>get_password_hash\<close>, \<open>create_access_token\<close>; hashing and signing may
  raise), and the exception the database raises at a commit, if any.
\<close>

record env =
  utcnow :: int
  year_now :: int
  decode_token :: "string \<Rightarrow> (string \<times> string) list option"
  get_password_hash :: "string \<Rightarrow> exn + string"
  create_access_token :: "string \<Rightarrow> exn + string"
  commit_fault :: "exn option"

text \<open>What a handler produces: the response, the store afterwards, the lines logged.\<close>

record outcome =
  out_response :: response
  out_db :: db
  out_log :: "log_entry list"

section \<open>The queries and writes of the object-relational library\<close>

text \<open>\<open>query.first()\<close>: the first row of the result, or \<open>None\<close>.\<close>

definition first :: "'a list \<Rightarrow> 'a option" where
  "first rows = (case rows of [] \<Rightarrow> None | r # _ \<Rightarrow> Some r)"

text \<open>
  The primary key the database gives to a new row, taken to be one more than the largest
  in the table (1 in an empty table).
\<close>

definition next_id :: "int list \<Rightarrow> int" where
  "next_id ids = fold max ids 0 + 1"

text \<open>
  \<open>User(email=..., username=..., hashed_password=...)\<close>, \<open>db.add\<close>, \<open>db.commit\<close>,
  \<open>db.refresh\<close>: the row is inserted with its key and the column defaults, unless the
  commit fails or a unique column would repeat.
\<close>

definition commit_new_user :: "env \<Rightarrow> db \<Rightarrow> string \<Rightarrow> string \<Rightarrow> string \<Rightarrow> exn + (user \<times> db)" where
  "commit_new_user env db email username hashed_password =
     (case commit_fault env of
        Some e \<Rightarrow> Inl e
      | None \<Rightarrow>
          if list_ex (\<lambda>u. u_email u = email \<or> u_username u = username) (tbl_users db)
          then Inl (Exception ''IntegrityError'')
          else
            let db_user = \<lparr>u_id = next_id (map u_id (tbl_users db)), u_email = email,
                  u_username = username, u_hashed_password = hashed_password,
                  u_is_active = True, u_created_at = utcnow env\<rparr>
            in Inr (db_user, db\<lparr>tbl_users := tbl_users db @ [db_user]\<rparr>))"

text \<open>
  The keyword arguments \<open>**album_data\<close>: a list of keys with their values, a value
  possibly \<open>None\<close>. The keys are those of the columns a form field supplies, and
  \<open>owner_id\<close>.
\<close>

datatype kwarg =
    Title "string option"
  | Artist "string option"
  | Genre "string option"
  | Release_year "int option"
  | Record_label "string option"
  | Country "string option"
  | Condition "string option"
  | Barcode "string option"
  | Notes "string option"
  | Owner_id "int option"

datatype column =
    K_title | K_artist | K_genre | K_release_year | K_record_label | K_country
  | K_condition | K_barcode | K_notes | K_owner_id

fun key :: "kwarg \<Rightarrow> column" where
  "key (Title v) = K_title"
| "key (Artist v) = K_artist"
| "key (Genre v) = K_genre"
| "key (Release_year v) = K_release_year"
| "key (Record_label v) = K_record_label"
| "key (Country v) = K_country"
| "key (Condition v) = K_condition"
| "key (Barcode v) = K_barcode"
| "key (Notes v) = K_notes"
| "key (Owner_id v) = K_owner_id"

text \<open>\<open>value is None\<close>.\<close>

fun is_None :: "kwarg \<Rightarrow> bool" where
  "is_None (Title v) = (v = None)"
| "is_None (Artist v) = (v = None)"
| "is_None (Genre v) = (v = None)"
| "is_None (Release_year v) = (v = None)"
| "is_None (Record_label v) = (v = None)"
| "is_None (Country v) = (v = None)"
| "is_None (Condition v) = (v = None)"
| "is_None (Barcode v) = (v = None)"
| "is_None (Notes v) = (v = None)"
| "is_None (Owner_id v) = (v = None)"

text \<open>\<open>setattr(album, key, value)\<close> and \<open>getattr(album, key)\<close>.\<close>

fun setattr :: "album \<Rightarrow> kwarg \<Rightarrow> album" where
  "setattr a (Title v) = a\<lparr>a_title := v\<rparr>"
| "setattr a (Artist v) = a\<lparr>a_artist := v\<rparr>"
| "setattr a (Genre v) = a\<lparr>a_genre := v\<rparr>"
| "setattr a (Release_year v) = a\<lparr>a_release_year := v\<rparr>"
| "setattr a (Record_label v) = a\<lparr>a_record_label := v\<rparr>"
| "setattr a (Country v) = a\<lparr>a_country := v\<rparr>"
| "setattr a (Condition v) = a\<lparr>a_condition := v\<rparr>"
| "setattr a (Barcode v) = a\<lparr>a_barcode := v\<rparr>"
| "setattr a (Notes v) = a\<lparr>a_notes := v\<rparr>"
| "setattr a (Owner_id v) = a\<lparr>a_owner_id := v\<rparr>"

fun getattr :: "album \<Rightarrow> column \<Rightarrow> kwarg" where
  "getattr a K_title = Title (a_title a)"
| "getattr a K_artist = Artist (a_artist a)"
| "getattr a K_genre = Genre (a_genre a)"
| "getattr a K_release_year = Release_year (a_release_year a)"
| "getattr a K_record_label = Record_label (a_record_label a)"
| "getattr a K_country = Country (a_country a)"
| "getattr a K_condition = Condition (a_condition a)"
| "getattr a K_barcode = Barcode (a_barcode a)"
| "getattr a K_notes = Notes (a_notes a)"
| "getattr a K_owner_id = Owner_id (a_owner_id a)"

text \<open>
  \<open>Album(owner_id=user_id, **album_data)\<close>: a call that gives \<open>owner_id\<close> twice is a
  \<open>TypeError\<close>; the columns not given are \<open>None\<close>. The key and the creation time are
  set by the database at the commit.
\<close>

definition Album :: "int \<Rightarrow> kwarg list \<Rightarrow> exn + album" where
  "Album user_id album_data =
     (if K_owner_id \<in> set (map key album_data) then Inl (Exception ''TypeError'')
      else Inr (fold (\<lambda>kv a. setattr a kv) album_data
        \<lparr>a_id = 0, a_title = None, a_artist = None, a_genre = None,
         a_release_year = None, a_record_label = None, a_country = None,
         a_condition = None, a_barcode = None, a_notes = None, a_created_at = 0,
         a_owner_id = Some user_id\<rparr>))"

text \<open>
  \<open>db.add(db_album)\<close>, \<open>db.commit()\<close>, \<open>db.refresh(db_album)\<close>: the row is inserted with
  a new key and the creation time, unless the commit fails or a column declared
  \<open>nullable=False\<close> is \<open>None\<close>.
\<close>

definition commit_new_album :: "env \<Rightarrow> db \<Rightarrow> album \<Rightarrow> exn + (album \<times> db)" where
  "commit_new_album env db db_album =
     (case commit_fault env of
        Some e \<Rightarrow> Inl e
      | None \<Rightarrow>
          if a_title db_album = None \<or> a_artist db_album = None
          then Inl (Exception ''IntegrityError'')
          else
            let row = db_album\<lparr>a_id := next_id (map a_id (tbl_albums db)),
                  a_created_at := utcnow env\<rparr>
            in Inr (row, db\<lparr>tbl_albums := tbl_albums db @ [row]\<rparr>))"

text \<open>\<open>db.commit()\<close> after attributes of the loaded row \<open>album\<close> were set.\<close>

definition commit_update :: "env \<Rightarrow> db \<Rightarrow> album \<Rightarrow> album \<Rightarrow> exn + (album \<times> db)" where
  "commit_update env db album changed =
     (case commit_fault env of
        Some e \<Rightarrow> Inl e
      | None \<Rightarrow>
          Inr (changed, db\<lparr>tbl_albums :=
            map (\<lambda>r. if a_id r = a_id album then changed else r) (tbl_albums db)\<rparr>))"

text \<open>\<open>db.delete(album)\<close>, \<open>db.commit()\<close>.\<close>

definition commit_delete :: "env \<Rightarrow> db \<Rightarrow> album \<Rightarrow> exn + db" where
  "commit_delete env db album =
     (case commit_fault env of
        Some e \<Rightarrow> Inl e
      | None \<Rightarrow> Inr (db\<lparr>tbl_albums := filter (\<lambda>r. a_id r \<noteq> a_id album) (tbl_albums db)\<rparr>))"

section \<open>Data access (crud.py)\<close>

definition get_user_by_email :: "db \<Rightarrow> string \<Rightarrow> user option" where
  "get_user_by_email db email = first (filter (\<lambda>u. u_email u = email) (tbl_users db))"

definition get_user_by_username :: "db \<Rightarrow> string \<Rightarrow> user option" where
  "get_user_by_username db username =
     first (filter (\<lambda>u. u_username u = username) (tbl_users db))"

definition create_user :: "env \<Rightarrow> db \<Rightarrow> string \<Rightarrow> string \<Rightarrow> string \<Rightarrow> exn + (user \<times> db)" where
  "create_user env db email username password =
     (if get_user_by_email db email \<noteq> None \<or> get_user_by_username db username \<noteq> None
      then Inl (HTTPException 400 User_exists)
      else
        (case get_password_hash env password of
           Inl e \<Rightarrow> Inl e
         | Inr hashed_password \<Rightarrow> commit_new_user env db email username hashed_password))"

text \<open>
  \<open>get_albums\<close>; \<open>skip\<close> and \<open>limit\<close> are \<open>None\<close> where the caller leaves them out, and
  are not negative.
\<close>

definition get_albums :: "db \<Rightarrow> int \<Rightarrow> nat option \<Rightarrow> nat option \<Rightarrow> album list" where
  "get_albums db user_id skip limit =
     take (case limit of None \<Rightarrow> 100 | Some l \<Rightarrow> l)
       (drop (case skip of None \<Rightarrow> 0 | Some s \<Rightarrow> s)
          (sort_key (\<lambda>a. - a_created_at a)
             (filter (\<lambda>a. a_owner_id a = Some user_id) (tbl_albums db))))"

text \<open>
  \<open>get_album_by_id\<close>, for an \<open>album_id\<close> that the database driver can pass to the query
  (a signed integer of 64 bits). For an integer outside that range the driver raises
  before the query runs; that failure of the read is not part of this model, and what
  is proved of a missing album is proved for identifiers within the range.
\<close>

definition get_album_by_id :: "db \<Rightarrow> int \<Rightarrow> int \<Rightarrow> exn + album" where
  "get_album_by_id db album_id user_id =
     (case first (filter (\<lambda>a. a_id a = album_id \<and> a_owner_id a = Some user_id)
                    (tbl_albums db)) of
        None \<Rightarrow> Inl (HTTPException 404 Album_not_found)
      | Some album \<Rightarrow> Inr album)"

definition create_album :: "env \<Rightarrow> db \<Rightarrow> int \<Rightarrow> kwarg list \<Rightarrow> exn + (album \<times> db)" where
  "create_album env db user_id album_data =
     (case Album user_id album_data of
        Inl e \<Rightarrow> Inl e
      | Inr db_album \<Rightarrow> commit_new_album env db db_album)"

definition update_album :: "env \<Rightarrow> db \<Rightarrow> int \<Rightarrow> int \<Rightarrow> kwarg list \<Rightarrow> exn + (album \<times> db)" where
  "update_album env db album_id user_id album_data =
     (case get_album_by_id db album_id user_id of
        Inl e \<Rightarrow> Inl e
      | Inr album \<Rightarrow>
          commit_update env db album
            (fold (\<lambda>kv a. if \<not> is_None kv then setattr a kv else a) album_data album))"

definition delete_album :: "env \<Rightarrow> db \<Rightarrow> int \<Rightarrow> int \<Rightarrow> exn + (bool \<times> db)" where
  "delete_album env db album_id user_id =
     (case get_album_by_id db album_id user_id of
        Inl e \<Rightarrow> Inl e
      | Inr album \<Rightarrow>
          (case commit_delete env db album of
             Inl e \<Rightarrow> Inl e
           | Inr db' \<Rightarrow> Inr (True, db')))"

definition search_albums :: "db \<Rightarrow> int \<Rightarrow> string \<Rightarrow> album list" where
  "search_albums db user_id query =
     filter (\<lambda>a. a_owner_id a = Some user_id \<and>
                 (ilike (a_title a) (''%'' @ query @ ''%'') \<or>
                  ilike (a_artist a) (''%'' @ query @ ''%'') \<or>
                  ilike (a_genre a) (''%'' @ query @ ''%'')))
       (tbl_albums db)"

section \<open>The request handlers (main.py)\<close>

definition SYSTEM_PATHS :: "string set" where
  "SYSTEM_PATHS = {''/favicon.ico'', ''/docs'', ''/redoc'', ''/openapi.json''}"

text \<open>
  \<open>general_exception_handler\<close>, the handler of the exceptions no route catches; \<open>exc\<close> is
  the text \<open>str(exc)\<close>. It gives the response and the line it logs.
\<close>

definition general_exception_handler :: "request \<Rightarrow> string \<Rightarrow> response \<times> log_entry list" where
  "general_exception_handler request exc =
     (if path request \<in> SYSTEM_PATHS
      then (JSONResponse 404 Not_found, [Unhandled_exception exc])
      else
        let error_message = (if length exc > 200 then take 200 exc @ ''...'' else exc)
        in (TemplateResponse Error_html 500 (Some (Internal_error error_message)) [],
            [Unhandled_exception exc]))"

definition get_current_user_from_cookie :: "env \<Rightarrow> request \<Rightarrow> db \<Rightarrow> user option" where
  "get_current_user_from_cookie env request db =
     (case cookies request ''access_token'' of
        None \<Rightarrow> None
      | Some token \<Rightarrow>
          if token = [] then None
          else
            (case decode_token env token of
               None \<Rightarrow> None
             | Some payload \<Rightarrow>
                 if payload = [] then None
                 else
                   (case map_of payload ''sub'' of
                      None \<Rightarrow> None
                    | Some username \<Rightarrow>
                        if username = [] then None
                        else first (filter (\<lambda>u. u_username u = username) (tbl_users db)))))"

text \<open>
  \<open>POST /register\<close>. \<open>db.rollback()\<close> in the \<open>except\<close> block discards what the session
  has not committed: the store is then what the last commit left.
\<close>

definition register_user ::
  "env \<Rightarrow> request \<Rightarrow> string \<Rightarrow> string \<Rightarrow> string \<Rightarrow> string \<Rightarrow> db \<Rightarrow> outcome" where
  "register_user env request email username password confirm_password db =
     (let validation_errors =
            validate_user_registration email username password confirm_password
      in
        if validation_errors \<noteq> [] then
          \<lparr>out_response =
             TemplateResponse Register_html 422 (Some (Validation validation_errors)) [],
           out_db = db, out_log = []\<rparr>
        else if get_user_by_email db email \<noteq> None \<or> get_user_by_username db username \<noteq> None
        then
          \<lparr>out_response = TemplateResponse Register_html 400 (Some User_exists) [],
           out_db = db, out_log = []\<rparr>
        else
          (case get_password_hash env password of
             Inl e \<Rightarrow>
               \<lparr>out_response =
                  TemplateResponse Register_html 500 (Some Registration_failed) [],
                out_db = db, out_log = [Registration_error e]\<rparr>
           | Inr hashed_password \<Rightarrow>
               (case commit_new_user env db email username hashed_password of
                  Inl e \<Rightarrow>
                    \<lparr>out_response =
                       TemplateResponse Register_html 500 (Some Registration_failed) [],
                     out_db = db, out_log = [Registration_error e]\<rparr>
                | Inr (user, db') \<Rightarrow>
                    (case create_access_token env (u_username user) of
                       Inl e \<Rightarrow>
                         \<lparr>out_response =
                            TemplateResponse Register_html 500 (Some Registration_failed) [],
                          out_db = db', out_log = [Registration_error e]\<rparr>
                     | Inr access_token \<Rightarrow>
                         \<lparr>out_response = RedirectResponse To_albums 303 (Some access_token),
                          out_db = db', out_log = []\<rparr>))))"

text \<open>\<open>GET /albums\<close>, with the optional query parameter \<open>q\<close>.\<close>

definition albums_page :: "env \<Rightarrow> request \<Rightarrow> db \<Rightarrow> string option \<Rightarrow> outcome" where
  "albums_page env request db q =
     (case get_current_user_from_cookie env request db of
        None \<Rightarrow>
          \<lparr>out_response = RedirectResponse To_login 303 None, out_db = db, out_log = []\<rparr>
      | Some user \<Rightarrow>
          let shown = (if q \<noteq> None \<and> q \<noteq> Some []
                       then search_albums db (u_id user) (the q)
                       else get_albums db (u_id user) None None)
          in \<lparr>out_response = TemplateResponse Albums_html 200 None shown,
              out_db = db, out_log = []\<rparr>)"

text \<open>\<open>x.strip() if x else None\<close>.\<close>

definition strip_if :: "string option \<Rightarrow> string option" where
  "strip_if x = (case x of None \<Rightarrow> None | Some s \<Rightarrow> if s = [] then None else Some (strip s))"

text \<open>
  The dictionary \<open>album_data\<close> that \<open>create_new_album\<close> and \<open>edit_album\<close> build from the
  form, and the comprehension that drops its \<open>None\<close> values.
\<close>

definition form_album_data ::
  "string \<Rightarrow> string \<Rightarrow> string option \<Rightarrow> int option \<Rightarrow> string option \<Rightarrow> string option \<Rightarrow>
   string option \<Rightarrow> string option \<Rightarrow> string option \<Rightarrow> kwarg list" where
  "form_album_data title artist genre release_year record_label country condition barcode notes =
     filter (\<lambda>kv. \<not> is_None kv)
       [Title (Some (strip title)), Artist (Some (strip artist)), Genre (strip_if genre),
        Release_year release_year, Record_label (strip_if record_label),
        Country (strip_if country), Condition condition, Barcode (strip_if barcode),
        Notes (strip_if notes)]"

text \<open>\<open>POST /albums/new\<close>.\<close>

definition create_new_album ::
  "env \<Rightarrow> request \<Rightarrow> string \<Rightarrow> string \<Rightarrow> string option \<Rightarrow> int option \<Rightarrow> string option \<Rightarrow>
   string option \<Rightarrow> string option \<Rightarrow> string option \<Rightarrow> string option \<Rightarrow> db \<Rightarrow> outcome" where
  "create_new_album env request title artist genre release_year record_label country condition
       barcode notes db =
     (case get_current_user_from_cookie env request db of
        None \<Rightarrow>
          \<lparr>out_response = RedirectResponse To_login 303 None, out_db = db, out_log = []\<rparr>
      | Some user \<Rightarrow>
          let validation_errors = validate_album_data (year_now env) title artist release_year
          in
            if validation_errors \<noteq> [] then
              \<lparr>out_response =
                 TemplateResponse Album_detail_html 422 (Some (Validation validation_errors)) [],
               out_db = db, out_log = []\<rparr>
            else
              (case create_album env db (u_id user)
                      (form_album_data title artist genre release_year record_label country
                         condition barcode notes) of
                 Inr (album, db') \<Rightarrow>
                   \<lparr>out_response = RedirectResponse (To_album (a_id album)) 303 None,
                    out_db = db', out_log = []\<rparr>
               | Inl e \<Rightarrow>
                   \<lparr>out_response =
                      TemplateResponse Album_detail_html 500 (Some Album_create_failed) [],
                    out_db = db, out_log = [Album_create_error e]\<rparr>))"

text \<open>
  \<open>GET /albums/{album_id}\<close>. Only an \<open>HTTPException\<close> is caught; any other exception
  goes to \<open>general_exception_handler\<close>.
\<close>

definition album_detail_page :: "env \<Rightarrow> request \<Rightarrow> int \<Rightarrow> db \<Rightarrow> outcome" where
  "album_detail_page env request album_id db =
     (case get_current_user_from_cookie env request db of
        None \<Rightarrow>
          \<lparr>out_response = RedirectResponse To_login 303 None, out_db = db, out_log = []\<rparr>
      | Some user \<Rightarrow>
          (case get_album_by_id db album_id (u_id user) of
             Inr album \<Rightarrow>
               \<lparr>out_response = TemplateResponse Album_detail_html 200 None [album],
                out_db = db, out_log = []\<rparr>
           | Inl (HTTPException c d) \<Rightarrow>
               \<lparr>out_response = TemplateResponse Error_html 404 (Some Album_not_found) [],
                out_db = db, out_log = []\<rparr>
           | Inl (Exception s) \<Rightarrow>
               \<lparr>out_response = fst (general_exception_handler request s),
                out_db = db, out_log = snd (general_exception_handler request s)\<rparr>))"

text \<open>\<open>POST /albums/{album_id}/edit\<close>.\<close>

definition edit_album ::
  "env \<Rightarrow> request \<Rightarrow> int \<Rightarrow> string \<Rightarrow> string \<Rightarrow> string option \<Rightarrow> int option \<Rightarrow> string option \<Rightarrow>
   string option \<Rightarrow> string option \<Rightarrow> string option \<Rightarrow> string option \<Rightarrow> db \<Rightarrow> outcome" where
  "edit_album env request album_id title artist genre release_year record_label country
       condition barcode notes db =
     (case get_current_user_from_cookie env request db of
        None \<Rightarrow>
          \<lparr>out_response = RedirectResponse To_login 303 None, out_db = db, out_log = []\<rparr>
      | Some user \<Rightarrow>
          let validation_errors = validate_album_data (year_now env) title artist release_year
          in
            if validation_errors \<noteq> [] then
              \<lparr>out_response =
                 TemplateResponse Album_detail_html 422 (Some (Validation validation_errors)) [],
               out_db = db, out_log = []\<rparr>
            else
              (case update_album env db album_id (u_id user)
                      (form_album_data title artist genre release_year record_label country
                         condition barcode notes) of
                 Inr (album, db') \<Rightarrow>
                   \<lparr>out_response = RedirectResponse (To_album (a_id album)) 303 None,
                    out_db = db', out_log = []\<rparr>
               | Inl (HTTPException c d) \<Rightarrow>
                   \<lparr>out_response = TemplateResponse Error_html c (Some d) [],
                    out_db = db, out_log = []\<rparr>
               | Inl (Exception s) \<Rightarrow>
                   \<lparr>out_response =
                      TemplateResponse Album_detail_html 500 (Some Album_update_failed) [],
                    out_db = db, out_log = [Album_update_error (Exception s)]\<rparr>))"

text \<open>\<open>POST /albums/{album_id}/delete\<close>; \<open>except Exception\<close> catches an \<open>HTTPException\<close> too.\<close>

definition delete_album_endpoint :: "env \<Rightarrow> request \<Rightarrow> int \<Rightarrow> db \<Rightarrow> outcome" where
  "delete_album_endpoint env request album_id db =
     (case get_current_user_from_cookie env request db of
        None \<Rightarrow>
          \<lparr>out_response = RedirectResponse To_login 303 None, out_db = db, out_log = []\<rparr>
      | Some user \<Rightarrow>
          (case delete_album env db album_id (u_id user) of
             Inr (deleted, db') \<Rightarrow>
               \<lparr>out_response = RedirectResponse To_albums 303 None,
                out_db = db', out_log = []\<rparr>
           | Inl e \<Rightarrow>
               \<lparr>out_response = RedirectResponse To_albums 303 None,
                out_db = db, out_log = [Album_delete_error e]\<rparr>))"

section \<open>The reachable states\<close>

text \<open>
  The states the routes that write reach from the empty store. Beside the store stands a
  record of who created each album: the requester of the \<open>POST /albums/new\<close> that was
  answered with the redirect to the new album.
\<close>

definition created_by :: "(int \<rightharpoonup> int) \<Rightarrow> outcome \<Rightarrow> user option \<Rightarrow> (int \<rightharpoonup> int)" where
  "created_by creator out requester =
     (case (out_response out, requester) of
        (RedirectResponse (To_album i) c k, Some user) \<Rightarrow> creator(i \<mapsto> u_id user)
      | _ \<Rightarrow> creator)"

inductive reachable :: "db \<Rightarrow> (int \<rightharpoonup> int) \<Rightarrow> bool" where
  start: "reachable \<lparr>tbl_users = [], tbl_albums = []\<rparr> Map.empty"
| register:
    "reachable db creator \<Longrightarrow>
     reachable
       (out_db (register_user env request email username password confirm_password db))
       creator"
| create:
    "reachable db creator \<Longrightarrow>
     out = create_new_album env request title artist genre release_year record_label country
             condition barcode notes db \<Longrightarrow>
     reachable (out_db out)
       (created_by creator out (get_current_user_from_cookie env request db))"
| edit:
    "reachable db creator \<Longrightarrow>
     reachable
       (out_db (edit_album env request album_id title artist genre release_year record_label
                  country condition barcode notes db))
       creator"
| delete:
    "reachable db creator \<Longrightarrow>
     reachable (out_db (delete_album_endpoint env request album_id db)) creator"

section \<open>The properties, in the words of the specification\<close>

text \<open>
  An e-mail address has the required shape when it contains \<open>@\<close> and a dot after its
  last \<open>@\<close>.
\<close>

definition email_shape :: "string \<Rightarrow> bool" where
  "email_shape email =
     (\<exists>local_part domain. email = local_part @ CHR ''@'' # domain
        \<and> CHR ''@'' \<notin> set domain \<and> CHR ''.'' \<in> set domain)"

text \<open>A string contains \<open>@\<close> with a dot somewhere after it.\<close>

fun dot_after_at :: "string \<Rightarrow> bool" where
  "dot_after_at [] = False"
| "dot_after_at (c # cs) = ((c = CHR ''@'' \<and> CHR ''.'' \<in> set cs) \<or> dot_after_at cs)"

text \<open>A string is blank when it is empty or all of it is whitespace.\<close>

definition blank :: "string \<Rightarrow> bool" where
  "blank s = list_all isspace s"

text \<open>A list of albums is ordered newest first by creation time.\<close>

definition newest_first :: "album list \<Rightarrow> bool" where
  "newest_first xs = sorted_wrt (\<lambda>a b. a_created_at b \<le> a_created_at a) xs"

text \<open>The store holds an album with this identifier owned by this user.\<close>

definition owns :: "db \<Rightarrow> int \<Rightarrow> int \<Rightarrow> bool" where
  "owns db user_id album_id =
     list_ex (\<lambda>a. a_id a = album_id \<and> a_owner_id a = Some user_id) (tbl_albums db)"

text \<open>
  An identifier the database can hold and its driver can pass to a query: a signed
  integer of 64 bits.
\<close>

definition storable_id :: "int \<Rightarrow> bool" where
  "storable_id i = (- (2 ^ 63) \<le> i \<and> i < 2 ^ 63)"

text \<open>A user with this e-mail address or this user name exists.\<close>

definition taken :: "db \<Rightarrow> string \<Rightarrow> string \<Rightarrow> bool" where
  "taken db email username =
     list_ex (\<lambda>u. u_email u = email \<or> u_username u = username) (tbl_users db)"

text \<open>
  An optional form field is empty or missing. What is stored for an optional text field
  on create: nothing for an empty or missing value, otherwise the value without its
  leading and trailing whitespace; on edit: the previous value for an empty or missing
  value, otherwise the value without its leading and trailing whitespace.
\<close>

definition empty_or_missing :: "string option \<Rightarrow> bool" where
  "empty_or_missing x = (x = None \<or> x = Some [])"

definition stored_on_create :: "string option \<Rightarrow> string option" where
  "stored_on_create x = (if empty_or_missing x then None else Some (strip (the x)))"

definition stored_on_edit :: "string option \<Rightarrow> string option \<Rightarrow> string option" where
  "stored_on_edit old x = (if empty_or_missing x then old else Some (strip (the x)))"

text \<open>A column after an update: the new value, or the old one where the new is \<open>None\<close>.\<close>

definition keep :: "'a option \<Rightarrow> 'a option \<Rightarrow> 'a option" where
  "keep old new = (case new of None \<Rightarrow> old | Some v \<Rightarrow> Some v)"

text \<open>
  A text cut to its first 200 characters, with an ellipsis of three dots added when it
  was longer.
\<close>

definition truncated :: "string \<Rightarrow> string" where
  "truncated s = (if length s > 200 then take 200 s @ ''...'' else s)"

text \<open>
  A query holds none of the wildcard characters of \<open>LIKE\<close>. A column contains the query
  as a substring, the case of ASCII letters ignored. An album matches a user's query
  when the user owns it and its title, artist or genre contains the query.
\<close>

definition wildcard_free :: "string \<Rightarrow> bool" where
  "wildcard_free q = (CHR ''%'' \<notin> set q \<and> CHR ''_'' \<notin> set q)"

definition contains_ci :: "string \<Rightarrow> string option \<Rightarrow> bool" where
  "contains_ci q col = (case col of None \<Rightarrow> False | Some s \<Rightarrow> sublist (lower q) (lower s))"

definition matches :: "int \<Rightarrow> string \<Rightarrow> album \<Rightarrow> bool" where
  "matches user_id q a =
     (a_owner_id a = Some user_id
      \<and> (contains_ci q (a_title a) \<or> contains_ci q (a_artist a) \<or> contains_ci q (a_genre a)))"

text \<open>
  Every stored album has an owner, and the owner is the user recorded as its creator.
\<close>

definition owners_recorded :: "db \<Rightarrow> (int \<rightharpoonup> int) \<Rightarrow> bool" where
  "owners_recorded db creator =
     (\<forall>a\<in>set (tbl_albums db). a_owner_id a \<noteq> None \<and> creator (a_id a) = a_owner_id a)"

section \<open>Example data\<close>

text \<open>
  Two users, three albums (two of the first user, one of the second), an environment in
  which nothing fails, and a request of each user.
\<close>

definition alice :: user where
  "alice = \<lparr>u_id = 1, u_email = ''alice@example.org'', u_username = ''alice'',
     u_hashed_password = ''h1'', u_is_active = True, u_created_at = 10\<rparr>"

definition bob :: user where
  "bob = \<lparr>u_id = 2, u_email = ''bob@example.org'', u_username = ''bob'',
     u_hashed_password = ''h2'', u_is_active = True, u_created_at = 20\<rparr>"

definition album1 :: album where
  "album1 = \<lparr>a_id = 1, a_title = Some ''Abbey Road'', a_artist = Some ''The Beatles'',
     a_genre = Some ''Rock'', a_release_year = Some 1969, a_record_label = None,
     a_country = None, a_condition = None, a_barcode = None, a_notes = None,
     a_created_at = 100, a_owner_id = Some 1\<rparr>"

definition album2 :: album where
  "album2 = \<lparr>a_id = 2, a_title = Some ''Kind of Blue'', a_artist = Some ''Miles Davis'',
     a_genre = Some ''Jazz'', a_release_year = Some 1959, a_record_label = None,
     a_country = None, a_condition = None, a_barcode = None, a_notes = None,
     a_created_at = 200, a_owner_id = Some 1\<rparr>"

definition album3 :: album where
  "album3 = \<lparr>a_id = 3, a_title = Some ''Blue Train'', a_artist = Some ''John Coltrane'',
     a_genre = None, a_release_year = None, a_record_label = None,
     a_country = None, a_condition = None, a_barcode = None, a_notes = None,
     a_created_at = 150, a_owner_id = Some 2\<rparr>"

definition db0 :: db where
  "db0 = \<lparr>tbl_users = [alice, bob], tbl_albums = [album1, album2, album3]\<rparr>"

definition env0 :: env where
  "env0 = \<lparr>utcnow = 300, year_now = 2026,
     decode_token = (\<lambda>t. if t = ''tok-alice'' then Some [(''sub'', ''alice'')]
                          else if t = ''tok-bob'' then Some [(''sub'', ''bob'')] else None),
     get_password_hash = (\<lambda>p. Inr (''hash-'' @ p)),
     create_access_token = (\<lambda>sub. Inr (''tok-'' @ sub)),
     commit_fault = None\<rparr>"

definition req_alice :: request where
  "req_alice = \<lparr>path = ''/albums'', cookies = [''access_token'' \<mapsto> ''tok-alice'']\<rparr>"

definition req_bob :: request where
  "req_bob = \<lparr>path = ''/albums'', cookies = [''access_token'' \<mapsto> ''tok-bob'']\<rparr>"

text \<open>Two environments in which something fails: the hashing, and the commit.\<close>

definition env_hash_fails :: env where
  "env_hash_fails = env0\<lparr>get_password_hash := (\<lambda>p. Inl (Exception ''hash failure''))\<rparr>"

definition env_commit_fails :: env where
  "env_commit_fails = env0\<lparr>commit_fault := Some (Exception ''database is locked'')\<rparr>"

text \<open>
  The store after a first user has registered, and after that user has created a first
  album, with the record of the album's creator.
\<close>

definition alice_new :: user where
  "alice_new = \<lparr>u_id = 1, u_email = ''alice@example.org'', u_username = ''alice'',
     u_hashed_password = ''hash-secret'', u_is_active = True, u_created_at = 300\<rparr>"

definition album_low :: album where
  "album_low = \<lparr>a_id = 1, a_title = Some ''Low'', a_artist = Some ''David Bowie'',
     a_genre = None, a_release_year = None, a_record_label = None,
     a_country = None, a_condition = None, a_barcode = None, a_notes = None,
     a_created_at = 300, a_owner_id = Some 1\<rparr>"

definition db_one :: db where
  "db_one = \<lparr>tbl_users = [alice_new], tbl_albums = []\<rparr>"

definition db_two :: db where
  "db_two = \<lparr>tbl_users = [alice_new], tbl_albums = [album_low]\<rparr>"

definition creator_two :: "int \<rightharpoonup> int" where
  "creator_two = [1 \<mapsto> 1]"

section \<open>Splitting and stripping\<close>

lemma split_str_not_Nil: "split_str sep s \<noteq> []"
  by (induction s) (auto split: list.splits)

lemma split_str_no_sep: "sep \<notin> set s \<Longrightarrow> split_str sep s = [s]"
  by (induction s) auto

lemma split_str_two: "\<exists>p q qs. split_str sep (l @ sep # d) = p # q # qs"
proof (induction l)
  case Nil
  then show ?case using split_str_not_Nil [of sep d] by (cases "split_str sep d") auto
next
  case (Cons x l)
  then show ?case by (auto split: list.splits)
qed

lemma last_split_str_append:
  "last (split_str sep (l @ sep # d)) = last (split_str sep d)"
proof (induction l)
  case Nil
  then show ?case by (simp add: split_str_not_Nil)
next
  case (Cons c l)
  show ?case
  proof (cases "c = sep")
    case True
    then show ?thesis using Cons by (simp add: split_str_not_Nil)
  next
    case False
    obtain p q qs where "split_str sep (l @ sep # d) = p # q # qs"
      using split_str_two by blast
    then show ?thesis using Cons False by simp
  qed
qed

lemma last_split_str_unique:
  "s = l @ sep # d \<Longrightarrow> sep \<notin> set d \<Longrightarrow> last (split_str sep s) = d"
  by (simp add: last_split_str_append split_str_no_sep)

lemma split_str_decompose:
  assumes "sep \<in> set s"
  shows "\<exists>l. s = l @ sep # last (split_str sep s) \<and> sep \<notin> set (last (split_str sep s))"
proof -
  obtain l d where s: "s = l @ sep # d" and d: "sep \<notin> set d"
    using assms by (meson split_list_last)
  then have "last (split_str sep s) = d"
    by (rule last_split_str_unique)
  then show ?thesis using s d by auto
qed

lemma email_check_iff:
  "(email = [] \<or> CHR ''@'' \<notin> set email
      \<or> CHR ''.'' \<notin> set (last (split_str CHR ''@'' email)))
     \<longleftrightarrow> \<not> email_shape email"
proof (cases "CHR ''@'' \<in> set email")
  case False
  then show ?thesis by (auto simp: email_shape_def)
next
  case True
  then obtain l where l: "email = l @ CHR ''@'' # last (split_str CHR ''@'' email)"
    and n: "CHR ''@'' \<notin> set (last (split_str CHR ''@'' email))"
    using split_str_decompose by blast
  have "email_shape email \<longleftrightarrow> CHR ''.'' \<in> set (last (split_str CHR ''@'' email))"
  proof
    assume "email_shape email"
    then obtain l' d' where "email = l' @ CHR ''@'' # d'" and "CHR ''@'' \<notin> set d'"
      and dot: "CHR ''.'' \<in> set d'"
      by (auto simp: email_shape_def)
    then have "last (split_str CHR ''@'' email) = d'"
      by (simp add: last_split_str_unique)
    with dot show "CHR ''.'' \<in> set (last (split_str CHR ''@'' email))" by simp
  next
    assume "CHR ''.'' \<in> set (last (split_str CHR ''@'' email))"
    with l n show "email_shape email" unfolding email_shape_def by blast
  qed
  with True show ?thesis by auto
qed

lemma strip_Nil_iff: "strip s = [] \<longleftrightarrow> list_all isspace s"
proof -
  have "strip s = [] \<longleftrightarrow> (\<forall>x\<in>set (dropWhile isspace s). isspace x)"
    by (simp add: strip_def)
  also have "\<dots> \<longleftrightarrow> dropWhile isspace s = []"
  proof (cases "dropWhile isspace s")
    case Nil
    show ?thesis unfolding Nil by simp
  next
    case (Cons x xs)
    then have "\<not> isspace x" by (metis hd_dropWhile list.sel(1) list.distinct(1))
    then show ?thesis unfolding Cons by simp
  qed
  also have "\<dots> \<longleftrightarrow> list_all isspace s"
    by (simp add: list_all_iff)
  finally show ?thesis .
qed

section \<open>Registration validation\<close>

text \<open>
  C6, as amended. Registration validation returns no error exactly when the e-mail
  address contains \<open>@\<close> and a dot after its last \<open>@\<close>, the user name has 3 to 50
  characters, the password has 6 to 72 characters and equals its confirmation. Every
  violated rule has its entry in the returned list, whatever else is violated: the
  entry of a rule is in the list exactly when that rule is violated.
\<close>

theorem registration_validation:
  "(validate_user_registration email username password confirm_password = [] \<longleftrightarrow>
      email_shape email \<and> 3 \<le> length username \<and> length username \<le> 50
      \<and> 6 \<le> length password \<and> length password \<le> 72 \<and> password = confirm_password)
   \<and> (Invalid_email \<in> set (validate_user_registration email username password confirm_password)
        \<longleftrightarrow> \<not> email_shape email)
   \<and> (Username_too_short \<in> set (validate_user_registration email username password confirm_password)
        \<longleftrightarrow> length username < 3)
   \<and> (Username_too_long \<in> set (validate_user_registration email username password confirm_password)
        \<longleftrightarrow> 50 < length username)
   \<and> (Password_too_short \<in> set (validate_user_registration email username password confirm_password)
        \<longleftrightarrow> length password < 6)
   \<and> (Password_too_long \<in> set (validate_user_registration email username password confirm_password)
        \<longleftrightarrow> 72 < length password)
   \<and> (Passwords_differ \<in> set (validate_user_registration email username password confirm_password)
        \<longleftrightarrow> password \<noteq> confirm_password)"
  unfolding validate_user_registration_def email_check_iff
  by auto

text \<open>
  The theorem at the lower boundaries (a user name of 3 characters, a password of 6), the
  upper boundaries (50 and 72), and at an input that breaks four rules at once.
\<close>

theorem registration_validation_witness:
  "validate_user_registration ''a@b.co'' ''bob'' ''secret'' ''secret'' = []
   \<and> email_shape ''a@b.co''
   \<and> validate_user_registration ''a@b.co'' (replicate 50 CHR ''u'') (replicate 72 CHR ''p'')
       (replicate 72 CHR ''p'') = []
   \<and> validate_user_registration ''ab.co'' ''bo'' ''secre'' ''secret''
       = [Invalid_email, Username_too_short, Password_too_short, Passwords_differ]
   \<and> \<not> email_shape ''ab.co''"
proof -
  have ok: "validate_user_registration ''a@b.co'' ''bob'' ''secret'' ''secret'' = []"
    by (simp add: validate_user_registration_def)
  have bad: "validate_user_registration ''ab.co'' ''bo'' ''secre'' ''secret''
       = [Invalid_email, Username_too_short, Password_too_short, Passwords_differ]"
    by (simp add: validate_user_registration_def)
  have "email_shape ''a@b.co''"
    using registration_validation [of "''a@b.co''" "''bob''" "''secret''" "''secret''"] ok
    by blast
  moreover have "\<not> email_shape ''ab.co''"
    using registration_validation [of "''ab.co''" "''bo''" "''secre''" "''secret''"] bad
    by simp
  moreover have "validate_user_registration ''a@b.co'' (replicate 50 CHR ''u'')
       (replicate 72 CHR ''p'') (replicate 72 CHR ''p'') = []"
    by (simp add: validate_user_registration_def)
  ultimately show ?thesis using ok bad by simp
qed

text \<open>
  The claim as stated fails: this address contains \<open>@\<close> with a dot after it, every
  other rule holds, and the registration is rejected, since no dot follows the last \<open>@\<close>.
\<close>

theorem registration_validation_counterexample:
  "dot_after_at ''a@b.c@d''
   \<and> 3 \<le> length ''bob'' \<and> length ''bob'' \<le> 50
   \<and> 6 \<le> length ''secret'' \<and> length ''secret'' \<le> 72
   \<and> validate_user_registration ''a@b.c@d'' ''bob'' ''secret'' ''secret'' = [Invalid_email]"
  by (simp add: validate_user_registration_def)

section \<open>Album validation\<close>

text \<open>
  C7. Album validation returns no error exactly when the title is not blank and has at
  most 200 characters, the artist is not blank and has at most 100 characters, and the
  release year, if present, lies between 1900 and the current year, both included.
\<close>

theorem album_validation:
  "validate_album_data current_year title artist release_year = [] \<longleftrightarrow>
     \<not> blank title \<and> length title \<le> 200 \<and> \<not> blank artist \<and> length artist \<le> 100
     \<and> (case release_year of None \<Rightarrow> True | Some y \<Rightarrow> 1900 \<le> y \<and> y \<le> current_year)"
  unfolding validate_album_data_def blank_def
  by (auto simp: strip_Nil_iff split: option.splits)

text \<open>
  The theorem at the boundaries: a title of 200 characters, an artist of 100, the years
  1900 and the current one are accepted; a title of spaces and the year 1899 are not.
\<close>

theorem album_validation_witness:
  "validate_album_data 2026 (replicate 200 CHR ''a'') (replicate 100 CHR ''b'') (Some 1900) = []
   \<and> validate_album_data 2026 (replicate 200 CHR ''a'') (replicate 100 CHR ''b'') (Some 2026) = []
   \<and> \<not> blank (replicate 200 CHR ''a'')
   \<and> blank ''  ''
   \<and> validate_album_data 2026 ''  '' ''Artist'' None \<noteq> []
   \<and> validate_album_data 2026 ''Title'' ''Artist'' (Some 1899) \<noteq> []"
proof -
  have a: "validate_album_data 2026 (replicate 200 CHR ''a'') (replicate 100 CHR ''b'') (Some 1900) = []"
    by (simp add: validate_album_data_def strip_def isspace_def)
  have b: "validate_album_data 2026 (replicate 200 CHR ''a'') (replicate 100 CHR ''b'') (Some 2026) = []"
    by (simp add: validate_album_data_def strip_def isspace_def)
  have c: "\<not> blank (replicate 200 CHR ''a'')"
    using album_validation [of 2026 "replicate 200 CHR ''a''" "replicate 100 CHR ''b''" "Some 1900"] a
    by blast
  have d: "blank ''  ''"
    by (simp add: blank_def isspace_def)
  have e: "validate_album_data 2026 ''  '' ''Artist'' None \<noteq> []"
    using album_validation [of 2026 "''  ''" "''Artist''" None] d by blast
  have f: "validate_album_data 2026 ''Title'' ''Artist'' (Some 1899) \<noteq> []"
    using album_validation [of 2026 "''Title''" "''Artist''" "Some 1899"] by simp
  show ?thesis using a b c d e f by blast
qed

section \<open>The example data, evaluated\<close>

lemmas albums0 = db0_def album1_def album2_def album3_def

lemmas users0 = db0_def alice_def bob_def

lemma current_user_alice: "get_current_user_from_cookie env0 req_alice db0 = Some alice"
  by (simp add: get_current_user_from_cookie_def first_def env0_def req_alice_def users0)

lemma current_user_bob: "get_current_user_from_cookie env0 req_bob db0 = Some bob"
  by (simp add: get_current_user_from_cookie_def first_def env0_def req_bob_def users0)

section \<open>Queries\<close>

lemma first_filter_None: "first (filter P xs) = None \<longleftrightarrow> \<not> list_ex P xs"
  by (induction xs) (auto simp: first_def)

lemma first_filter_Some: "first (filter P xs) = Some x \<Longrightarrow> x \<in> set xs \<and> P x"
  by (induction xs) (auto simp: first_def split: if_splits)

lemma not_owns_get:
  "\<not> owns db user_id album_id \<Longrightarrow>
   get_album_by_id db album_id user_id = Inl (HTTPException 404 Album_not_found)"
  by (simp add: owns_def get_album_by_id_def first_filter_None [symmetric])

lemma owns_get:
  assumes "owns db user_id album_id"
  shows "\<exists>album. get_album_by_id db album_id user_id = Inr album
      \<and> album \<in> set (tbl_albums db)
      \<and> a_id album = album_id \<and> a_owner_id album = Some user_id"
proof -
  have "first (filter (\<lambda>a. a_id a = album_id \<and> a_owner_id a = Some user_id)
                 (tbl_albums db)) \<noteq> None"
    using assms by (simp add: owns_def first_filter_None)
  then obtain album where
    "first (filter (\<lambda>a. a_id a = album_id \<and> a_owner_id a = Some user_id)
              (tbl_albums db)) = Some album"
    by blast
  then show ?thesis
    by (auto simp: get_album_by_id_def dest: first_filter_Some)
qed

lemma get_album_by_id_Inr:
  "get_album_by_id db album_id user_id = Inr album \<Longrightarrow>
   album \<in> set (tbl_albums db) \<and> a_id album = album_id \<and> a_owner_id album = Some user_id"
  by (auto simp: get_album_by_id_def split: option.splits dest: first_filter_Some)

lemma taken_iff:
  "taken db email username \<longleftrightarrow>
     get_user_by_email db email \<noteq> None \<or> get_user_by_username db username \<noteq> None"
  by (auto simp: taken_def get_user_by_email_def get_user_by_username_def first_filter_None
        list_ex_iff)

section \<open>Setting attributes\<close>

lemma setattr_other: "key kv \<noteq> c \<Longrightarrow> getattr (setattr a kv) c = getattr a c"
  by (cases kv; cases c) simp_all

lemma getattr_setattr: "getattr (setattr a kv) (key kv) = kv"
  by (cases kv) simp_all

lemma setattr_id: "a_id (setattr a kv) = a_id a"
  by (cases kv) simp_all

lemma setattr_created_at: "a_created_at (setattr a kv) = a_created_at a"
  by (cases kv) simp_all

lemma fold_setattr_frame:
  "(\<forall>kv\<in>set kws. key kv = c \<longrightarrow> is_None kv) \<Longrightarrow>
   getattr (fold (\<lambda>kv a. if \<not> is_None kv then setattr a kv else a) kws a) c = getattr a c"
  by (induction kws arbitrary: a) (auto simp: setattr_other)

lemma fold_setattr_id:
  "a_id (fold (\<lambda>kv a. if \<not> is_None kv then setattr a kv else a) kws a) = a_id a"
  by (induction kws arbitrary: a) (auto simp: setattr_id)

lemma fold_setattr_created_at:
  "a_created_at (fold (\<lambda>kv a. if \<not> is_None kv then setattr a kv else a) kws a)
     = a_created_at a"
  by (induction kws arbitrary: a) (auto simp: setattr_created_at)

lemma fold_setattr_overwrite:
  "distinct (map key kws) \<Longrightarrow> kv \<in> set kws \<Longrightarrow> \<not> is_None kv \<Longrightarrow>
   getattr (fold (\<lambda>kv a. if \<not> is_None kv then setattr a kv else a) kws a) (key kv) = kv"
proof (induction kws arbitrary: a)
  case Nil
  then show ?case by simp
next
  case (Cons k ks)
  show ?case
  proof (cases "kv = k")
    case True
    have "\<forall>x\<in>set ks. key x = key k \<longrightarrow> is_None x"
      using Cons.prems(1) by (auto simp: image_iff)
    then show ?thesis
      using True Cons.prems(3) by (simp add: fold_setattr_frame getattr_setattr)
  next
    case False
    then have "kv \<in> set ks" using Cons.prems(2) by simp
    moreover have "distinct (map key ks)" using Cons.prems(1) by simp
    ultimately show ?thesis using Cons.IH Cons.prems(3) by simp
  qed
qed

section \<open>Listing\<close>

lemma newest_first_sort_key: "newest_first (sort_key (\<lambda>a. - a_created_at a) xs)"
proof -
  have "sorted (map (\<lambda>a. - a_created_at a) (sort_key (\<lambda>a. - a_created_at a) xs))"
    by (rule sorted_sort_key)
  then show ?thesis
    by (simp add: newest_first_def sorted_map sorted_wrt_iff_nth_less)
qed

lemma newest_first_drop: "newest_first xs \<Longrightarrow> newest_first (drop n xs)"
  by (simp add: newest_first_def sorted_wrt_drop)

lemma newest_first_take: "newest_first xs \<Longrightarrow> newest_first (take n xs)"
  by (simp add: newest_first_def sorted_wrt_take)

text \<open>
  C4. The listing of a user's albums is a page of that user's albums ordered newest
  first by creation time: there is an ordering \<open>full\<close> of exactly the user's albums, newest
  first, of which the listing skips the first \<open>skip\<close> and returns at most the next
  \<open>limit\<close>. A caller that gives neither gets \<open>skip = 0\<close> and \<open>limit = 100\<close>, as
  the album page does when it is asked without a query.
\<close>

theorem get_albums_listing:
  "(\<exists>full. mset full = mset (filter (\<lambda>a. a_owner_id a = Some user_id) (tbl_albums db))
        \<and> newest_first full
        \<and> get_albums db user_id skip limit =
            take (case limit of None \<Rightarrow> 100 | Some l \<Rightarrow> l)
              (drop (case skip of None \<Rightarrow> 0 | Some s \<Rightarrow> s) full))
   \<and> newest_first (get_albums db user_id skip limit)
   \<and> get_albums db user_id None None = get_albums db user_id (Some 0) (Some 100)
   \<and> (get_current_user_from_cookie env request db = Some user \<and> (q = None \<or> q = Some [])
        \<longrightarrow> albums_page env request db q =
              \<lparr>out_response =
                 TemplateResponse Albums_html 200 None (get_albums db (u_id user) (Some 0) (Some 100)),
               out_db = db, out_log = []\<rparr>)"
proof -
  let ?full = "sort_key (\<lambda>a. - a_created_at a)
                 (filter (\<lambda>a. a_owner_id a = Some user_id) (tbl_albums db))"
  have "mset ?full = mset (filter (\<lambda>a. a_owner_id a = Some user_id) (tbl_albums db))"
    by simp
  moreover have "newest_first ?full"
    by (rule newest_first_sort_key)
  moreover have "get_albums db user_id skip limit =
            take (case limit of None \<Rightarrow> 100 | Some l \<Rightarrow> l)
              (drop (case skip of None \<Rightarrow> 0 | Some s \<Rightarrow> s) ?full)"
    by (simp add: get_albums_def)
  moreover have "newest_first (get_albums db user_id skip limit)"
    unfolding get_albums_def
    by (intro newest_first_take newest_first_drop newest_first_sort_key)
  moreover have d: "\<And>u. get_albums db u None None = get_albums db u (Some 0) (Some 100)"
    by (simp add: get_albums_def)
  moreover have "get_current_user_from_cookie env request db = Some user
        \<and> (q = None \<or> q = Some [])
        \<longrightarrow> albums_page env request db q =
              \<lparr>out_response =
                 TemplateResponse Albums_html 200 None (get_albums db (u_id user) (Some 0) (Some 100)),
               out_db = db, out_log = []\<rparr>"
    by (auto simp: albums_page_def d)
  ultimately show ?thesis by blast
qed

text \<open>
  The theorem on the example store: the first user's two albums, the newer one first;
  the second page of size one holds the older one; the album page of the first user.
\<close>

theorem get_albums_listing_witness:
  "get_albums db0 1 None None = [album2, album1]
   \<and> get_albums db0 1 (Some 1) (Some 1) = [album1]
   \<and> newest_first [album2, album1]
   \<and> albums_page env0 req_alice db0 None =
       \<lparr>out_response = TemplateResponse Albums_html 200 None [album2, album1],
        out_db = db0, out_log = []\<rparr>"
proof -
  have a: "get_albums db0 1 None None = [album2, album1]"
    by (simp add: get_albums_def albums0)
  have b: "get_albums db0 1 (Some 1) (Some 1) = [album1]"
    by (simp add: get_albums_def albums0)
  have i: "u_id alice = 1" by (simp add: alice_def)
  note t = get_albums_listing [of 1 db0 None None env0 req_alice alice None]
  have n: "newest_first (get_albums db0 1 None None)"
    using t by blast
  have e: "get_albums db0 1 (Some 0) (Some 100) = [album2, album1]"
    using t a by simp
  have p: "albums_page env0 req_alice db0 None =
       \<lparr>out_response = TemplateResponse Albums_html 200 None [album2, album1],
        out_db = db0, out_log = []\<rparr>"
    using t current_user_alice e i by simp
  show ?thesis using a b n p by simp
qed

section \<open>Duplicate registrations\<close>

text \<open>
  C8. When a user with the given e-mail address or the given user name exists,
  registration fails and the store is unchanged: \<open>register_user\<close> answers the
  registration form with status 422 (invalid input) or 400 (the user exists) and logs
  nothing, whatever the environment does (so the insertion block, whose failures are
  logged and answered with 500, is not entered), and \<open>create_user\<close> raises the
  \<open>HTTPException\<close> with status 400.
\<close>

theorem duplicate_registration_rejected:
  assumes "taken db email username"
  shows "out_db (register_user env request email username password confirm_password db) = db
     \<and> out_log (register_user env request email username password confirm_password db) = []
     \<and> out_response (register_user env request email username password confirm_password db) =
         (if validate_user_registration email username password confirm_password = []
          then TemplateResponse Register_html 400 (Some User_exists) []
          else TemplateResponse Register_html 422
                 (Some (Validation
                    (validate_user_registration email username password confirm_password))) [])
     \<and> create_user env db email username password = Inl (HTTPException 400 User_exists)"
  using assms unfolding taken_iff
  by (simp add: register_user_def create_user_def Let_def)

text \<open>
  The theorem on the example store: a registration with the first user's e-mail
  address and a new user name.
\<close>

theorem duplicate_registration_rejected_witness:
  "taken db0 ''alice@example.org'' ''carol''
   \<and> validate_user_registration ''alice@example.org'' ''carol'' ''secret'' ''secret'' = []
   \<and> out_db (register_user env0 req_bob ''alice@example.org'' ''carol'' ''secret'' ''secret'' db0)
       = db0
   \<and> out_response
       (register_user env0 req_bob ''alice@example.org'' ''carol'' ''secret'' ''secret'' db0)
       = TemplateResponse Register_html 400 (Some User_exists) []
   \<and> create_user env0 db0 ''alice@example.org'' ''carol'' ''secret''
       = Inl (HTTPException 400 User_exists)"
proof -
  have t: "taken db0 ''alice@example.org'' ''carol''"
    by (simp add: taken_def users0)
  have v: "validate_user_registration ''alice@example.org'' ''carol'' ''secret'' ''secret'' = []"
    by (simp add: validate_user_registration_def)
  show ?thesis
    using duplicate_registration_rejected [OF t, of env0 req_bob "''secret''" "''secret''"] t v
    by simp
qed

section \<open>Albums are reached through their owner only\<close>

text \<open>
  C1, as amended. Let \<open>user\<close> be the authenticated requester and the album identifier
  one the database can hold (a signed integer of 64 bits). If the store holds no
  album with the given identifier owned by \<open>user\<close> (also when another user owns it),
  then \<open>get_album_by_id\<close>, \<open>update_album\<close> and \<open>delete_album\<close> fail with the not-found
  error (404), the detail page answers 404, the edit route answers 404 when the
  submitted form is valid and 422 when it is not, and the delete route logs the error
  and answers with the redirect to the list (303); in each case the store is unchanged.
  If such an album exists, fetching returns it, and, the commit not failing, editing
  changes the rows with that identifier and deleting removes them.
\<close>

theorem album_access_scoped:
  assumes "get_current_user_from_cookie env request db = Some user"
    and "storable_id album_id"
  shows "if owns db (u_id user) album_id
     then (\<exists>album. album \<in> set (tbl_albums db) \<and> a_id album = album_id
             \<and> a_owner_id album = Some (u_id user)
             \<and> get_album_by_id db album_id (u_id user) = Inr album
             \<and> album_detail_page env request album_id db =
                 \<lparr>out_response = TemplateResponse Album_detail_html 200 None [album],
                  out_db = db, out_log = []\<rparr>
             \<and> (commit_fault env = None \<longrightarrow>
                  (\<exists>album'. a_id album' = album_id
                     \<and> update_album env db album_id (u_id user) album_data =
                         Inr (album', db\<lparr>tbl_albums :=
                           map (\<lambda>r. if a_id r = album_id then album' else r) (tbl_albums db)\<rparr>))
                  \<and> delete_album env db album_id (u_id user) =
                      Inr (True, db\<lparr>tbl_albums :=
                        filter (\<lambda>r. a_id r \<noteq> album_id) (tbl_albums db)\<rparr>)
                  \<and> delete_album_endpoint env request album_id db =
                      \<lparr>out_response = RedirectResponse To_albums 303 None,
                       out_db = db\<lparr>tbl_albums :=
                         filter (\<lambda>r. a_id r \<noteq> album_id) (tbl_albums db)\<rparr>,
                       out_log = []\<rparr>
                  \<and> (validate_album_data (year_now env) title artist release_year = [] \<longrightarrow>
                        out_response (edit_album env request album_id title artist genre
                          release_year record_label country condition barcode notes db) =
                          RedirectResponse (To_album album_id) 303 None)))
     else get_album_by_id db album_id (u_id user) = Inl (HTTPException 404 Album_not_found)
        \<and> update_album env db album_id (u_id user) album_data =
            Inl (HTTPException 404 Album_not_found)
        \<and> delete_album env db album_id (u_id user) = Inl (HTTPException 404 Album_not_found)
        \<and> album_detail_page env request album_id db =
            \<lparr>out_response = TemplateResponse Error_html 404 (Some Album_not_found) [],
             out_db = db, out_log = []\<rparr>
        \<and> edit_album env request album_id title artist genre release_year record_label
              country condition barcode notes db =
            (if validate_album_data (year_now env) title artist release_year = []
             then \<lparr>out_response = TemplateResponse Error_html 404 (Some Album_not_found) [],
                   out_db = db, out_log = []\<rparr>
             else \<lparr>out_response = TemplateResponse Album_detail_html 422
                     (Some (Validation
                        (validate_album_data (year_now env) title artist release_year))) [],
                   out_db = db, out_log = []\<rparr>)
        \<and> delete_album_endpoint env request album_id db =
            \<lparr>out_response = RedirectResponse To_albums 303 None, out_db = db,
             out_log = [Album_delete_error (HTTPException 404 Album_not_found)]\<rparr>"
proof (cases "owns db (u_id user) album_id")
  case False
  note g = not_owns_get [OF False]
  show ?thesis
    using False assms(1) g
    by (simp add: update_album_def delete_album_def album_detail_page_def edit_album_def
          delete_album_endpoint_def Let_def)
next
  case True
  then obtain album where g: "get_album_by_id db album_id (u_id user) = Inr album"
    and m: "album \<in> set (tbl_albums db)" and i: "a_id album = album_id"
    and ow: "a_owner_id album = Some (u_id user)"
    using owns_get by blast
  show ?thesis
    using True assms(1) g m i ow
    by (auto simp: update_album_def delete_album_def album_detail_page_def edit_album_def
          delete_album_endpoint_def Let_def commit_update_def commit_delete_def fold_setattr_id)
qed

text \<open>
  The theorem on the example store: the second user asks for the first user's album,
  and the first user deletes it.
\<close>

theorem album_access_scoped_witness:
  "get_current_user_from_cookie env0 req_bob db0 = Some bob
   \<and> storable_id 1
   \<and> owns db0 (u_id bob) 1 = False
   \<and> album_detail_page env0 req_bob 1 db0 =
       \<lparr>out_response = TemplateResponse Error_html 404 (Some Album_not_found) [],
        out_db = db0, out_log = []\<rparr>
   \<and> edit_album env0 req_bob 1 ''Title'' ''Artist'' None None None None None None None db0 =
       \<lparr>out_response = TemplateResponse Error_html 404 (Some Album_not_found) [],
        out_db = db0, out_log = []\<rparr>
   \<and> delete_album_endpoint env0 req_bob 1 db0 =
       \<lparr>out_response = RedirectResponse To_albums 303 None, out_db = db0,
        out_log = [Album_delete_error (HTTPException 404 Album_not_found)]\<rparr>
   \<and> get_current_user_from_cookie env0 req_alice db0 = Some alice
   \<and> owns db0 (u_id alice) 1
   \<and> delete_album_endpoint env0 req_alice 1 db0 =
       \<lparr>out_response = RedirectResponse To_albums 303 None,
        out_db = db0\<lparr>tbl_albums := [album2, album3]\<rparr>, out_log = []\<rparr>"
proof -
  have n: "\<not> owns db0 (u_id bob) 1"
    by (simp add: owns_def bob_def albums0)
  have y: "owns db0 (u_id alice) 1"
    by (simp add: owns_def alice_def albums0)
  have v: "validate_album_data (year_now env0) ''Title'' ''Artist'' None = []"
    by (simp add: validate_album_data_def strip_def isspace_def)
  have f: "commit_fault env0 = None"
    by (simp add: env0_def)
  have k: "filter (\<lambda>r. a_id r \<noteq> 1) (tbl_albums db0) = [album2, album3]"
    by (simp add: albums0)
  have s: "storable_id 1"
    by (simp add: storable_id_def)
  note b = album_access_scoped [OF current_user_bob s, of "[]" "''Title''" "''Artist''" None
      None None None None None None]
  note a = album_access_scoped [OF current_user_alice s, of "[]" "''Title''" "''Artist''" None
      None None None None None None]
  have "delete_album_endpoint env0 req_alice 1 db0 =
       \<lparr>out_response = RedirectResponse To_albums 303 None,
        out_db = db0\<lparr>tbl_albums := [album2, album3]\<rparr>, out_log = []\<rparr>"
    using a y f k by auto
  then show ?thesis
    using b n v y s current_user_bob current_user_alice by simp
qed

text \<open>
  The claim as stated fails: the second user's request to delete the first user's album
  is not answered with 404 but with the redirect to the list.
\<close>

theorem album_access_scoped_counterexample:
  "get_current_user_from_cookie env0 req_bob db0 = Some bob
   \<and> owns db0 (u_id bob) 1 = False
   \<and> out_response (delete_album_endpoint env0 req_bob 1 db0)
       = RedirectResponse To_albums 303 None
   \<and> status_code (out_response (delete_album_endpoint env0 req_bob 1 db0)) \<noteq> 404"
proof -
  have n: "owns db0 (u_id bob) 1 = False"
    by (simp add: owns_def bob_def albums0)
  have g: "get_album_by_id db0 1 (u_id bob) = Inl (HTTPException 404 Album_not_found)"
    by (simp add: get_album_by_id_def first_def bob_def albums0)
  have d: "out_response (delete_album_endpoint env0 req_bob 1 db0)
       = RedirectResponse To_albums 303 None"
    by (simp add: delete_album_endpoint_def current_user_bob delete_album_def g)
  show ?thesis using n d current_user_bob by simp
qed

section \<open>What the album forms store\<close>

lemma strip_if_create: "strip_if x = stored_on_create x"
  by (auto simp: strip_if_def stored_on_create_def empty_or_missing_def split: option.splits)

lemma strip_if_edit: "keep old (strip_if x) = stored_on_edit old x"
  by (auto simp: strip_if_def stored_on_edit_def empty_or_missing_def keep_def
        split: option.splits)

lemma Album_form:
  "Album user_id
     (form_album_data title artist genre release_year record_label country condition barcode notes)
   = Inr \<lparr>a_id = 0, a_title = Some (strip title), a_artist = Some (strip artist),
          a_genre = strip_if genre, a_release_year = release_year,
          a_record_label = strip_if record_label, a_country = strip_if country,
          a_condition = condition, a_barcode = strip_if barcode, a_notes = strip_if notes,
          a_created_at = 0, a_owner_id = Some user_id\<rparr>"
  unfolding Album_def form_album_data_def
  by (cases "strip_if genre"; cases release_year; cases "strip_if record_label";
      cases "strip_if country"; cases condition; cases "strip_if barcode";
      cases "strip_if notes"; simp)

lemma fold_form:
  "fold (\<lambda>kv a. if \<not> is_None kv then setattr a kv else a)
     (form_album_data title artist genre release_year record_label country condition barcode notes)
     album
   = album\<lparr>a_title := Some (strip title), a_artist := Some (strip artist),
        a_genre := keep (a_genre album) (strip_if genre),
        a_release_year := keep (a_release_year album) release_year,
        a_record_label := keep (a_record_label album) (strip_if record_label),
        a_country := keep (a_country album) (strip_if country),
        a_condition := keep (a_condition album) condition,
        a_barcode := keep (a_barcode album) (strip_if barcode),
        a_notes := keep (a_notes album) (strip_if notes)\<rparr>"
  unfolding form_album_data_def keep_def
  by (cases "strip_if genre"; cases release_year; cases "strip_if record_label";
      cases "strip_if country"; cases condition; cases "strip_if barcode";
      cases "strip_if notes"; simp)

lemma create_new_album_stored:
  assumes "get_current_user_from_cookie env request db = Some user"
    and "out_response (create_new_album env request title artist genre release_year
           record_label country condition barcode notes db) = RedirectResponse (To_album i) c k"
  shows "out_db (create_new_album env request title artist genre release_year
           record_label country condition barcode notes db)
         = db\<lparr>tbl_albums := tbl_albums db @
             [\<lparr>a_id = i, a_title = Some (strip title), a_artist = Some (strip artist),
               a_genre = strip_if genre, a_release_year = release_year,
               a_record_label = strip_if record_label, a_country = strip_if country,
               a_condition = condition, a_barcode = strip_if barcode,
               a_notes = strip_if notes, a_created_at = utcnow env,
               a_owner_id = Some (u_id user)\<rparr>]\<rparr>
       \<and> i = next_id (map a_id (tbl_albums db))"
  using assms
  by (auto simp: create_new_album_def create_album_def Album_form commit_new_album_def Let_def
        split: if_splits option.splits sum.splits)

lemma edit_album_stored:
  assumes "get_current_user_from_cookie env request db = Some user"
    and "get_album_by_id db album_id (u_id user) = Inr old"
    and "out_response (edit_album env request album_id title artist genre release_year
           record_label country condition barcode notes db) = RedirectResponse (To_album j) c k"
  shows "out_db (edit_album env request album_id title artist genre release_year
           record_label country condition barcode notes db)
         = db\<lparr>tbl_albums := map (\<lambda>r. if a_id r = album_id then
              old\<lparr>a_title := Some (strip title), a_artist := Some (strip artist),
                a_genre := keep (a_genre old) (strip_if genre),
                a_release_year := keep (a_release_year old) release_year,
                a_record_label := keep (a_record_label old) (strip_if record_label),
                a_country := keep (a_country old) (strip_if country),
                a_condition := keep (a_condition old) condition,
                a_barcode := keep (a_barcode old) (strip_if barcode),
                a_notes := keep (a_notes old) (strip_if notes)\<rparr> else r) (tbl_albums db)\<rparr>"
proof -
  have i: "a_id old = album_id" using assms(2) by (auto dest: get_album_by_id_Inr)
  show ?thesis
    using assms i
    by (auto simp: edit_album_def update_album_def fold_form commit_update_def Let_def
        split: if_splits option.splits sum.splits exn.splits)
qed

lemma create_low:
  "out_response (create_new_album env0 req_alice ''  Low '' ''David Bowie'' (Some '' Art rock'')
      (Some 1977) (Some []) None (Some '' mint '') None None db0)
     = RedirectResponse (To_album 4) 303 None"
proof -
  have v: "validate_album_data (year_now env0) ''  Low '' ''David Bowie'' (Some 1977) = []"
    by (simp add: validate_album_data_def strip_def isspace_def env0_def)
  have f: "commit_fault env0 = None"
    by (simp add: env0_def)
  have n: "next_id (map a_id (tbl_albums db0)) = 4"
    by (simp add: next_id_def albums0)
  show ?thesis
    by (simp add: create_new_album_def current_user_alice v create_album_def Album_form
          commit_new_album_def f n Let_def)
qed

lemma edit_abbey_road:
  "out_response (edit_album env0 req_alice 1 ''Abbey Road'' ''The Beatles'' (Some [])
      None None None None None None db0)
     = RedirectResponse (To_album 1) 303 None"
proof -
  have v: "validate_album_data (year_now env0) ''Abbey Road'' ''The Beatles'' None = []"
    by (simp add: validate_album_data_def strip_def isspace_def)
  have f: "commit_fault env0 = None"
    by (simp add: env0_def)
  have g: "get_album_by_id db0 1 (u_id alice) = Inr album1"
    by (simp add: get_album_by_id_def first_def alice_def albums0)
  have i: "a_id album1 = 1"
    by (simp add: album1_def)
  show ?thesis
    by (simp add: edit_album_def current_user_alice v update_album_def g commit_update_def f
          fold_setattr_id i)
qed

lemma get_abbey_road: "get_album_by_id db0 1 (u_id alice) = Inr album1"
  by (simp add: get_album_by_id_def first_def alice_def albums0)

text \<open>
  C10, as amended. For a create or edit submission of the authenticated requester that
  succeeds (the answer is the redirect to the album): each of the optional text fields
  genre, record label, country, barcode and notes, submitted empty or missing, is
  treated as null, so that on create the column is stored null and on edit the column
  keeps its stored value; an edit never sets such a column that holds a value to null.
  A value that is not empty is stored without its leading and trailing whitespace, as
  are the title and the artist; the condition is stored as submitted, and on edit keeps
  its stored value when it is missing.
\<close>

theorem optional_fields_stored:
  assumes "get_current_user_from_cookie env request db = Some user"
  shows
   "(out_response (create_new_album env request title artist genre release_year
        record_label country condition barcode notes db) = RedirectResponse (To_album i) 303 None
     \<longrightarrow> (\<exists>album.
            tbl_albums (out_db (create_new_album env request title artist genre release_year
              record_label country condition barcode notes db)) = tbl_albums db @ [album]
          \<and> a_id album = i
          \<and> a_title album = Some (strip title)
          \<and> a_artist album = Some (strip artist)
          \<and> a_genre album = stored_on_create genre
          \<and> a_record_label album = stored_on_create record_label
          \<and> a_country album = stored_on_create country
          \<and> a_barcode album = stored_on_create barcode
          \<and> a_notes album = stored_on_create notes
          \<and> a_condition album = condition))
  \<and> (get_album_by_id db album_id (u_id user) = Inr old
      \<and> out_response (edit_album env request album_id title artist genre release_year
          record_label country condition barcode notes db) = RedirectResponse (To_album j) 303 None
     \<longrightarrow> (\<exists>album.
            tbl_albums (out_db (edit_album env request album_id title artist genre release_year
              record_label country condition barcode notes db))
              = map (\<lambda>r. if a_id r = album_id then album else r) (tbl_albums db)
          \<and> a_title album = Some (strip title)
          \<and> a_artist album = Some (strip artist)
          \<and> a_genre album = stored_on_edit (a_genre old) genre
          \<and> a_record_label album = stored_on_edit (a_record_label old) record_label
          \<and> a_country album = stored_on_edit (a_country old) country
          \<and> a_barcode album = stored_on_edit (a_barcode old) barcode
          \<and> a_notes album = stored_on_edit (a_notes old) notes
          \<and> a_condition album = (case condition of None \<Rightarrow> a_condition old | Some v \<Rightarrow> Some v)
          \<and> (a_genre old \<noteq> None \<longrightarrow> a_genre album \<noteq> None)
          \<and> (a_record_label old \<noteq> None \<longrightarrow> a_record_label album \<noteq> None)
          \<and> (a_country old \<noteq> None \<longrightarrow> a_country album \<noteq> None)
          \<and> (a_barcode old \<noteq> None \<longrightarrow> a_barcode album \<noteq> None)
          \<and> (a_notes old \<noteq> None \<longrightarrow> a_notes album \<noteq> None)))"
proof (intro conjI impI)
  assume r: "out_response (create_new_album env request title artist genre release_year
        record_label country condition barcode notes db) = RedirectResponse (To_album i) 303 None"
  show "\<exists>album.
            tbl_albums (out_db (create_new_album env request title artist genre release_year
              record_label country condition barcode notes db)) = tbl_albums db @ [album]
          \<and> a_id album = i
          \<and> a_title album = Some (strip title)
          \<and> a_artist album = Some (strip artist)
          \<and> a_genre album = stored_on_create genre
          \<and> a_record_label album = stored_on_create record_label
          \<and> a_country album = stored_on_create country
          \<and> a_barcode album = stored_on_create barcode
          \<and> a_notes album = stored_on_create notes
          \<and> a_condition album = condition"
    using create_new_album_stored [OF assms r]
    by (simp add: strip_if_create)
next
  assume e: "get_album_by_id db album_id (u_id user) = Inr old
      \<and> out_response (edit_album env request album_id title artist genre release_year
          record_label country condition barcode notes db) = RedirectResponse (To_album j) 303 None"
  have n: "\<And>prev x. prev \<noteq> None \<Longrightarrow> stored_on_edit prev x \<noteq> None"
    by (simp add: stored_on_edit_def)
  show "\<exists>album.
            tbl_albums (out_db (edit_album env request album_id title artist genre release_year
              record_label country condition barcode notes db))
              = map (\<lambda>r. if a_id r = album_id then album else r) (tbl_albums db)
          \<and> a_title album = Some (strip title)
          \<and> a_artist album = Some (strip artist)
          \<and> a_genre album = stored_on_edit (a_genre old) genre
          \<and> a_record_label album = stored_on_edit (a_record_label old) record_label
          \<and> a_country album = stored_on_edit (a_country old) country
          \<and> a_barcode album = stored_on_edit (a_barcode old) barcode
          \<and> a_notes album = stored_on_edit (a_notes old) notes
          \<and> a_condition album = (case condition of None \<Rightarrow> a_condition old | Some v \<Rightarrow> Some v)
          \<and> (a_genre old \<noteq> None \<longrightarrow> a_genre album \<noteq> None)
          \<and> (a_record_label old \<noteq> None \<longrightarrow> a_record_label album \<noteq> None)
          \<and> (a_country old \<noteq> None \<longrightarrow> a_country album \<noteq> None)
          \<and> (a_barcode old \<noteq> None \<longrightarrow> a_barcode album \<noteq> None)
          \<and> (a_notes old \<noteq> None \<longrightarrow> a_notes album \<noteq> None)"
  proof -
    let ?a = "old\<lparr>a_title := Some (strip title), a_artist := Some (strip artist),
                a_genre := keep (a_genre old) (strip_if genre),
                a_release_year := keep (a_release_year old) release_year,
                a_record_label := keep (a_record_label old) (strip_if record_label),
                a_country := keep (a_country old) (strip_if country),
                a_condition := keep (a_condition old) condition,
                a_barcode := keep (a_barcode old) (strip_if barcode),
                a_notes := keep (a_notes old) (strip_if notes)\<rparr>"
    have d: "out_db (edit_album env request album_id title artist genre release_year
              record_label country condition barcode notes db)
          = db\<lparr>tbl_albums := map (\<lambda>r. if a_id r = album_id then ?a else r) (tbl_albums db)\<rparr>"
      using edit_album_stored [OF assms conjunct1 [OF e] conjunct2 [OF e]] .
    have c: "keep (a_condition old) condition
               = (case condition of None \<Rightarrow> a_condition old | Some v \<Rightarrow> Some v)"
      by (simp add: keep_def)
    show ?thesis
      by (rule exI [of _ ?a]) (simp add: d strip_if_edit c n)
  qed
qed

text \<open>
  The theorem on the example store: the first user creates an album with padded values
  and an empty record label, and edits the first album with an empty genre.
\<close>

theorem optional_fields_stored_witness:
  "get_current_user_from_cookie env0 req_alice db0 = Some alice
   \<and> out_response (create_new_album env0 req_alice ''  Low '' ''David Bowie''
        (Some '' Art rock'') (Some 1977) (Some []) None (Some '' mint '') None None db0)
       = RedirectResponse (To_album 4) 303 None
   \<and> a_title (last (tbl_albums (out_db (create_new_album env0 req_alice ''  Low ''
        ''David Bowie'' (Some '' Art rock'') (Some 1977) (Some []) None (Some '' mint '')
        None None db0)))) = Some ''Low''
   \<and> a_genre (last (tbl_albums (out_db (create_new_album env0 req_alice ''  Low ''
        ''David Bowie'' (Some '' Art rock'') (Some 1977) (Some []) None (Some '' mint '')
        None None db0)))) = Some ''Art rock''
   \<and> a_record_label (last (tbl_albums (out_db (create_new_album env0 req_alice ''  Low ''
        ''David Bowie'' (Some '' Art rock'') (Some 1977) (Some []) None (Some '' mint '')
        None None db0)))) = None
   \<and> a_condition (last (tbl_albums (out_db (create_new_album env0 req_alice ''  Low ''
        ''David Bowie'' (Some '' Art rock'') (Some 1977) (Some []) None (Some '' mint '')
        None None db0)))) = Some '' mint ''
   \<and> get_album_by_id db0 1 (u_id alice) = Inr album1
   \<and> out_response (edit_album env0 req_alice 1 ''Abbey Road'' ''The Beatles'' (Some [])
        None None None None None None db0)
       = RedirectResponse (To_album 1) 303 None
   \<and> a_genre (hd (tbl_albums (out_db (edit_album env0 req_alice 1 ''Abbey Road''
        ''The Beatles'' (Some []) None None None None None None db0)))) = Some ''Rock''"
proof -
  note t = optional_fields_stored [OF current_user_alice, of "''  Low ''" "''David Bowie''"
      "Some '' Art rock''" "Some 1977" "Some []" None "Some '' mint ''" None None 4 1 album1 1]
  note t' = optional_fields_stored [OF current_user_alice, of "''Abbey Road''"
      "''The Beatles''" "Some []" None None None None None None 1 1 album1 1]
  from t create_low obtain a where
    a: "tbl_albums (out_db (create_new_album env0 req_alice ''  Low '' ''David Bowie''
        (Some '' Art rock'') (Some 1977) (Some []) None (Some '' mint '') None None db0))
        = tbl_albums db0 @ [a]"
    and a1: "a_title a = Some (strip ''  Low '')"
    and a2: "a_genre a = stored_on_create (Some '' Art rock'')"
    and a3: "a_record_label a = stored_on_create (Some [])"
    and a4: "a_condition a = Some '' mint ''"
    by blast
  from t' get_abbey_road edit_abbey_road obtain b where
    b: "tbl_albums (out_db (edit_album env0 req_alice 1 ''Abbey Road'' ''The Beatles''
        (Some []) None None None None None None db0))
        = map (\<lambda>r. if a_id r = 1 then b else r) (tbl_albums db0)"
    and b1: "a_genre b = stored_on_edit (a_genre album1) (Some [])"
    by blast
  have s1: "strip ''  Low '' = ''Low''" by (simp add: strip_def isspace_def)
  have s2: "stored_on_create (Some '' Art rock'') = Some ''Art rock''"
    by (simp add: stored_on_create_def empty_or_missing_def strip_def isspace_def)
  have s3: "stored_on_create (Some []) = None"
    by (simp add: stored_on_create_def empty_or_missing_def)
  have s4: "stored_on_edit (a_genre album1) (Some []) = Some ''Rock''"
    by (simp add: stored_on_edit_def empty_or_missing_def album1_def)
  have h: "hd (map (\<lambda>r. if a_id r = 1 then b else r) (tbl_albums db0)) = b"
    by (simp add: albums0)
  show ?thesis
    unfolding a b h
    using current_user_alice create_low get_abbey_road edit_abbey_road a1 a2 a3 a4 b1 s1 s2 s3 s4
    by simp
qed

text \<open>
  The claim as stated fails: an edit clears an optional field to the empty string. The
  first user submits a genre of one space for the first album, whose stored genre is
  \<open>Rock\<close>, and the stored genre becomes the empty string.
\<close>

theorem optional_fields_stored_counterexample:
  "get_album_by_id db0 1 (u_id alice) = Inr album1
   \<and> a_genre album1 = Some ''Rock''
   \<and> out_response (edit_album env0 req_alice 1 ''Abbey Road'' ''The Beatles'' (Some '' '')
        None None None None None None db0)
       = RedirectResponse (To_album 1) 303 None
   \<and> map a_genre (tbl_albums (out_db (edit_album env0 req_alice 1 ''Abbey Road''
        ''The Beatles'' (Some '' '') None None None None None None db0)))
       = [Some [], Some ''Jazz'', None]"
proof -
  have v: "validate_album_data (year_now env0) ''Abbey Road'' ''The Beatles'' None = []"
    by (simp add: validate_album_data_def strip_def isspace_def)
  have f: "form_album_data ''Abbey Road'' ''The Beatles'' (Some '' '') None None None None
             None None = [Title (Some ''Abbey Road''), Artist (Some ''The Beatles''),
               Genre (Some [])]"
    by (simp add: form_album_data_def strip_if_def strip_def isspace_def)
  have u: "update_album env0 db0 1 (u_id alice)
             [Title (Some ''Abbey Road''), Artist (Some ''The Beatles''), Genre (Some [])]
           = Inr (album1\<lparr>a_genre := Some []\<rparr>,
                  db0\<lparr>tbl_albums := [album1\<lparr>a_genre := Some []\<rparr>, album2, album3]\<rparr>)"
  proof -
    have c: "commit_fault env0 = None" by (simp add: env0_def)
    have m: "map (\<lambda>r. if a_id r = a_id album1 then album1\<lparr>a_genre := Some []\<rparr> else r)
               (tbl_albums db0) = [album1\<lparr>a_genre := Some []\<rparr>, album2, album3]"
      by (simp add: albums0)
    have w: "album1\<lparr>a_title := Some ''Abbey Road'', a_artist := Some ''The Beatles'',
                 a_genre := Some []\<rparr> = album1\<lparr>a_genre := Some []\<rparr>"
      by (simp add: album1_def)
    have i: "a_id album1 = 1"
      by (simp add: album1_def)
    show ?thesis
      using m by (simp add: update_album_def get_abbey_road commit_update_def c w i)
  qed
  have e: "edit_album env0 req_alice 1 ''Abbey Road'' ''The Beatles'' (Some '' '')
        None None None None None None db0
      = \<lparr>out_response = RedirectResponse (To_album 1) 303 None,
         out_db = db0\<lparr>tbl_albums := [album1\<lparr>a_genre := Some []\<rparr>, album2, album3]\<rparr>,
         out_log = []\<rparr>"
    by (simp add: edit_album_def current_user_alice v f u) (simp add: album1_def)
  show ?thesis
    unfolding e using get_abbey_road by (simp add: albums0)
qed

section \<open>Editing keeps what is not submitted\<close>

lemma edit_abbey_road_title_only:
  "out_response (edit_album env0 req_alice 1 ''Abbey Road (2019 mix)'' ''The Beatles'' None
      None None None None None None db0)
     = RedirectResponse (To_album 1) 303 None"
proof -
  have v: "validate_album_data (year_now env0) ''Abbey Road (2019 mix)'' ''The Beatles'' None = []"
    by (simp add: validate_album_data_def strip_def isspace_def)
  have f: "commit_fault env0 = None"
    by (simp add: env0_def)
  have i: "a_id album1 = 1"
    by (simp add: album1_def)
  show ?thesis
    by (simp add: edit_album_def current_user_alice v update_album_def get_abbey_road
          commit_update_def f fold_setattr_id i)
qed

text \<open>
  C5. Let \<open>album\<close> be the stored album that an edit finds. When \<open>update_album\<close> succeeds,
  every column for which the keyword arguments hold no value other than \<open>None\<close> keeps
  its stored value, as do the identifier and the creation time; a value other than
  \<open>None\<close> overwrites its column (the keys of a dictionary being distinct); the changed
  album replaces the stored row and no other row changes. When the edit route succeeds
  for the authenticated requester, every optional field that the form leaves out keeps
  its stored value, as do the identifier, the creation time and the owner.
\<close>

theorem update_album_frame:
  assumes "get_album_by_id db album_id user_id = Inr album"
  shows "(update_album env db album_id user_id album_data = Inr (album', db') \<longrightarrow>
       (\<forall>c. (\<forall>kv\<in>set album_data. key kv = c \<longrightarrow> is_None kv) \<longrightarrow>
              getattr album' c = getattr album c)
     \<and> (distinct (map key album_data) \<longrightarrow>
          (\<forall>kv\<in>set album_data. \<not> is_None kv \<longrightarrow> getattr album' (key kv) = kv))
     \<and> a_id album' = album_id \<and> a_created_at album' = a_created_at album
     \<and> tbl_albums db' = map (\<lambda>r. if a_id r = album_id then album' else r) (tbl_albums db)
     \<and> album' \<in> set (tbl_albums db'))
   \<and> (get_current_user_from_cookie env request db = Some user \<and> user_id = u_id user
       \<and> out_response (edit_album env request album_id title artist genre release_year
             record_label country condition barcode notes db)
           = RedirectResponse (To_album j) 303 None \<longrightarrow>
       (\<exists>stored.
           tbl_albums (out_db (edit_album env request album_id title artist genre release_year
             record_label country condition barcode notes db))
             = map (\<lambda>r. if a_id r = album_id then stored else r) (tbl_albums db)
         \<and> stored \<in> set (tbl_albums (out_db (edit_album env request album_id title artist
               genre release_year record_label country condition barcode notes db)))
         \<and> a_id stored = album_id
         \<and> a_created_at stored = a_created_at album
         \<and> a_owner_id stored = a_owner_id album
         \<and> (genre = None \<longrightarrow> a_genre stored = a_genre album)
         \<and> (release_year = None \<longrightarrow> a_release_year stored = a_release_year album)
         \<and> (record_label = None \<longrightarrow> a_record_label stored = a_record_label album)
         \<and> (country = None \<longrightarrow> a_country stored = a_country album)
         \<and> (condition = None \<longrightarrow> a_condition stored = a_condition album)
         \<and> (barcode = None \<longrightarrow> a_barcode stored = a_barcode album)
         \<and> (notes = None \<longrightarrow> a_notes stored = a_notes album)))"
proof (rule conjI; rule impI)
  assume u: "update_album env db album_id user_id album_data = Inr (album', db')"
  let ?f = "\<lambda>kv a. if \<not> is_None kv then setattr a kv else a"
  from assms u have c: "commit_update env db album (fold ?f album_data album) = Inr (album', db')"
    by (simp add: update_album_def)
  then have a': "album' = fold ?f album_data album"
    and d': "tbl_albums db' = map (\<lambda>r. if a_id r = a_id album then album' else r) (tbl_albums db)"
    by (auto simp: commit_update_def split: option.splits)
  from assms have m: "album \<in> set (tbl_albums db)" and i: "a_id album = album_id"
    by (auto dest: get_album_by_id_Inr)
  have "album' \<in> set (tbl_albums db')"
    unfolding d' using m by (auto simp: image_iff intro!: bexI [of _ album])
  then show "(\<forall>c. (\<forall>kv\<in>set album_data. key kv = c \<longrightarrow> is_None kv) \<longrightarrow>
              getattr album' c = getattr album c)
     \<and> (distinct (map key album_data) \<longrightarrow>
          (\<forall>kv\<in>set album_data. \<not> is_None kv \<longrightarrow> getattr album' (key kv) = kv))
     \<and> a_id album' = album_id \<and> a_created_at album' = a_created_at album
     \<and> tbl_albums db' = map (\<lambda>r. if a_id r = album_id then album' else r) (tbl_albums db)
     \<and> album' \<in> set (tbl_albums db')"
    using a' d' i
    by (auto simp: fold_setattr_frame fold_setattr_overwrite fold_setattr_id
          fold_setattr_created_at)
next
  assume e: "get_current_user_from_cookie env request db = Some user \<and> user_id = u_id user
       \<and> out_response (edit_album env request album_id title artist genre release_year
             record_label country condition barcode notes db)
           = RedirectResponse (To_album j) 303 None"
  let ?s = "album\<lparr>a_title := Some (strip title), a_artist := Some (strip artist),
                a_genre := keep (a_genre album) (strip_if genre),
                a_release_year := keep (a_release_year album) release_year,
                a_record_label := keep (a_record_label album) (strip_if record_label),
                a_country := keep (a_country album) (strip_if country),
                a_condition := keep (a_condition album) condition,
                a_barcode := keep (a_barcode album) (strip_if barcode),
                a_notes := keep (a_notes album) (strip_if notes)\<rparr>"
  from e have cu: "get_current_user_from_cookie env request db = Some user"
    and g: "get_album_by_id db album_id (u_id user) = Inr album"
    and r: "out_response (edit_album env request album_id title artist genre release_year
             record_label country condition barcode notes db)
           = RedirectResponse (To_album j) 303 None"
    using assms by simp_all
  have d: "out_db (edit_album env request album_id title artist genre release_year
              record_label country condition barcode notes db)
          = db\<lparr>tbl_albums := map (\<lambda>r. if a_id r = album_id then ?s else r) (tbl_albums db)\<rparr>"
    using edit_album_stored [OF cu g r] .
  from g have m: "album \<in> set (tbl_albums db)" and i: "a_id album = album_id"
    by (auto dest: get_album_by_id_Inr)
  have mem: "?s \<in> set (map (\<lambda>r. if a_id r = album_id then ?s else r) (tbl_albums db))"
    using m i by (auto simp: image_iff intro!: bexI [of _ album])
  show "\<exists>stored.
           tbl_albums (out_db (edit_album env request album_id title artist genre release_year
             record_label country condition barcode notes db))
             = map (\<lambda>r. if a_id r = album_id then stored else r) (tbl_albums db)
         \<and> stored \<in> set (tbl_albums (out_db (edit_album env request album_id title artist
               genre release_year record_label country condition barcode notes db)))
         \<and> a_id stored = album_id
         \<and> a_created_at stored = a_created_at album
         \<and> a_owner_id stored = a_owner_id album
         \<and> (genre = None \<longrightarrow> a_genre stored = a_genre album)
         \<and> (release_year = None \<longrightarrow> a_release_year stored = a_release_year album)
         \<and> (record_label = None \<longrightarrow> a_record_label stored = a_record_label album)
         \<and> (country = None \<longrightarrow> a_country stored = a_country album)
         \<and> (condition = None \<longrightarrow> a_condition stored = a_condition album)
         \<and> (barcode = None \<longrightarrow> a_barcode stored = a_barcode album)
         \<and> (notes = None \<longrightarrow> a_notes stored = a_notes album)"
    unfolding d
    using mem i
    by (intro exI [of _ ?s]) (simp add: keep_def strip_if_def)
qed

text \<open>
  The theorem on the example store: an update of the first album that gives a genre and
  a \<open>None\<close> for the notes changes the genre and keeps the title and the notes; an edit
  form with a new title only keeps the genre and the release year.
\<close>

theorem update_album_frame_witness:
  "get_album_by_id db0 1 1 = Inr album1
   \<and> update_album env0 db0 1 1 [Genre (Some ''Pop''), Notes None]
       = Inr (album1\<lparr>a_genre := Some ''Pop''\<rparr>,
              db0\<lparr>tbl_albums := [album1\<lparr>a_genre := Some ''Pop''\<rparr>, album2, album3]\<rparr>)
   \<and> getattr (album1\<lparr>a_genre := Some ''Pop''\<rparr>) K_title = getattr album1 K_title
   \<and> getattr (album1\<lparr>a_genre := Some ''Pop''\<rparr>) K_notes = getattr album1 K_notes
   \<and> getattr (album1\<lparr>a_genre := Some ''Pop''\<rparr>) K_genre = Genre (Some ''Pop'')
   \<and> out_response (edit_album env0 req_alice 1 ''Abbey Road (2019 mix)'' ''The Beatles'' None
        None None None None None None db0)
       = RedirectResponse (To_album 1) 303 None
   \<and> a_genre (hd (tbl_albums (out_db (edit_album env0 req_alice 1 ''Abbey Road (2019 mix)''
        ''The Beatles'' None None None None None None None db0)))) = Some ''Rock''
   \<and> a_release_year (hd (tbl_albums (out_db (edit_album env0 req_alice 1
        ''Abbey Road (2019 mix)'' ''The Beatles'' None None None None None None None db0))))
       = Some 1969"
proof -
  have g: "get_album_by_id db0 1 1 = Inr album1"
    by (simp add: get_album_by_id_def first_def albums0)
  have u: "update_album env0 db0 1 1 [Genre (Some ''Pop''), Notes None]
       = Inr (album1\<lparr>a_genre := Some ''Pop''\<rparr>,
              db0\<lparr>tbl_albums := [album1\<lparr>a_genre := Some ''Pop''\<rparr>, album2, album3]\<rparr>)"
    by (simp add: update_album_def get_album_by_id_def first_def commit_update_def env0_def
          albums0)
  note t = update_album_frame [OF g, THEN conjunct1, rule_format, OF u]
  have a1: "getattr (album1\<lparr>a_genre := Some ''Pop''\<rparr>) K_title = getattr album1 K_title"
    using t by simp
  have a2: "getattr (album1\<lparr>a_genre := Some ''Pop''\<rparr>) K_notes = getattr album1 K_notes"
    using t by simp
  have a3: "getattr (album1\<lparr>a_genre := Some ''Pop''\<rparr>) K_genre = Genre (Some ''Pop'')"
    using t by simp
  have i: "(1::int) = u_id alice" by (simp add: alice_def)
  from update_album_frame [OF g, THEN conjunct2, rule_format, of env0 req_alice alice
      "''Abbey Road (2019 mix)''" "''The Beatles''" None None None None None None None 1]
    current_user_alice i edit_abbey_road_title_only
  obtain stored where
    s: "tbl_albums (out_db (edit_album env0 req_alice 1 ''Abbey Road (2019 mix)''
          ''The Beatles'' None None None None None None None db0))
        = map (\<lambda>r. if a_id r = 1 then stored else r) (tbl_albums db0)"
    and s1: "a_genre stored = a_genre album1"
    and s2: "a_release_year stored = a_release_year album1"
    by blast
  have h: "hd (map (\<lambda>r. if a_id r = 1 then stored else r) (tbl_albums db0)) = stored"
    by (simp add: albums0)
  have b1: "a_genre (hd (tbl_albums (out_db (edit_album env0 req_alice 1
        ''Abbey Road (2019 mix)'' ''The Beatles'' None None None None None None None db0))))
       = Some ''Rock''"
    unfolding s h using s1 by (simp add: album1_def)
  have b2: "a_release_year (hd (tbl_albums (out_db (edit_album env0 req_alice 1
        ''Abbey Road (2019 mix)'' ''The Beatles'' None None None None None None None db0))))
       = Some 1969"
    unfolding s h using s2 by (simp add: album1_def)
  show ?thesis using g u a1 a2 a3 edit_abbey_road_title_only b1 b2 by simp
qed

section \<open>Unexpected failures\<close>

lemma current_user_alice_commit_fails:
  "get_current_user_from_cookie env_commit_fails req_alice db0 = Some alice"
  by (simp add: get_current_user_from_cookie_def first_def env_commit_fails_def env0_def
        req_alice_def users0)

text \<open>
  C9, as amended. An exception that no route catches is logged by the general handler
  and answered, on a framework path (\<open>/favicon.ico\<close>, \<open>/docs\<close>, \<open>/redoc\<close>,
  \<open>/openapi.json\<close>), with the JSON answer 404, and on every other path with the error
  page with status 500 whose message is the exception text, cut to its first 200
  characters and followed by an ellipsis when it is longer. An exception raised in a
  route's own insertion or update block is logged by the route and answered with the
  route's own page, a fixed message and status 500: by the registration route (which
  rolls the session back) when the hashing or the commit fails, and by the album create
  and edit routes when the commit fails; the delete route logs a failed commit and
  answers with the redirect to the list. In each of these cases the store is unchanged.
\<close>

theorem unexpected_exception_handling:
  "(fst (general_exception_handler request exc) =
      (if path request \<in> SYSTEM_PATHS then JSONResponse 404 Not_found
       else TemplateResponse Error_html 500 (Some (Internal_error (truncated exc))) []))
   \<and> snd (general_exception_handler request exc) = [Unhandled_exception exc]
   \<and> length (truncated exc) \<le> 203
   \<and> (length exc \<le> 200 \<longrightarrow> truncated exc = exc)
   \<and> (validate_user_registration email username password confirm_password = []
        \<and> \<not> taken db email username
        \<and> (get_password_hash env password = Inl e
            \<or> (\<exists>h. get_password_hash env password = Inr h) \<and> commit_fault env = Some e)
      \<longrightarrow> register_user env request email username password confirm_password db =
            \<lparr>out_response = TemplateResponse Register_html 500 (Some Registration_failed) [],
             out_db = db, out_log = [Registration_error e]\<rparr>)
   \<and> (get_current_user_from_cookie env request db = Some user
        \<and> validate_album_data (year_now env) title artist release_year = []
        \<and> commit_fault env = Some e
      \<longrightarrow> create_new_album env request title artist genre release_year record_label country
              condition barcode notes db =
            \<lparr>out_response = TemplateResponse Album_detail_html 500 (Some Album_create_failed) [],
             out_db = db, out_log = [Album_create_error e]\<rparr>)
   \<and> (get_current_user_from_cookie env request db = Some user
        \<and> validate_album_data (year_now env) title artist release_year = []
        \<and> owns db (u_id user) album_id
        \<and> commit_fault env = Some (Exception s)
      \<longrightarrow> edit_album env request album_id title artist genre release_year record_label country
              condition barcode notes db =
            \<lparr>out_response = TemplateResponse Album_detail_html 500 (Some Album_update_failed) [],
             out_db = db, out_log = [Album_update_error (Exception s)]\<rparr>)
   \<and> (get_current_user_from_cookie env request db = Some user
        \<and> owns db (u_id user) album_id
        \<and> commit_fault env = Some e
      \<longrightarrow> delete_album_endpoint env request album_id db =
            \<lparr>out_response = RedirectResponse To_albums 303 None,
             out_db = db, out_log = [Album_delete_error e]\<rparr>)"
proof (intro conjI impI)
  show "fst (general_exception_handler request exc) =
      (if path request \<in> SYSTEM_PATHS then JSONResponse 404 Not_found
       else TemplateResponse Error_html 500 (Some (Internal_error (truncated exc))) [])"
    by (simp add: general_exception_handler_def truncated_def Let_def)
  show "snd (general_exception_handler request exc) = [Unhandled_exception exc]"
    by (simp add: general_exception_handler_def Let_def)
  show "length (truncated exc) \<le> 203"
    by (simp add: truncated_def)
  show "truncated exc = exc" if "length exc \<le> 200"
    using that by (simp add: truncated_def)
next
  assume a: "validate_user_registration email username password confirm_password = []
        \<and> \<not> taken db email username
        \<and> (get_password_hash env password = Inl e
            \<or> (\<exists>h. get_password_hash env password = Inr h) \<and> commit_fault env = Some e)"
  then have "get_user_by_email db email = None" "get_user_by_username db username = None"
    by (auto simp: taken_iff)
  with a show "register_user env request email username password confirm_password db =
            \<lparr>out_response = TemplateResponse Register_html 500 (Some Registration_failed) [],
             out_db = db, out_log = [Registration_error e]\<rparr>"
    by (auto simp: register_user_def commit_new_user_def Let_def)
next
  assume a: "get_current_user_from_cookie env request db = Some user
        \<and> validate_album_data (year_now env) title artist release_year = []
        \<and> commit_fault env = Some e"
  then show "create_new_album env request title artist genre release_year record_label country
              condition barcode notes db =
            \<lparr>out_response = TemplateResponse Album_detail_html 500 (Some Album_create_failed) [],
             out_db = db, out_log = [Album_create_error e]\<rparr>"
    by (simp add: create_new_album_def create_album_def Album_form commit_new_album_def)
next
  assume a: "get_current_user_from_cookie env request db = Some user
        \<and> validate_album_data (year_now env) title artist release_year = []
        \<and> owns db (u_id user) album_id
        \<and> commit_fault env = Some (Exception s)"
  then obtain album where "get_album_by_id db album_id (u_id user) = Inr album"
    using owns_get by blast
  with a show "edit_album env request album_id title artist genre release_year record_label country
              condition barcode notes db =
            \<lparr>out_response = TemplateResponse Album_detail_html 500 (Some Album_update_failed) [],
             out_db = db, out_log = [Album_update_error (Exception s)]\<rparr>"
    by (simp add: edit_album_def update_album_def commit_update_def)
next
  assume a: "get_current_user_from_cookie env request db = Some user
        \<and> owns db (u_id user) album_id
        \<and> commit_fault env = Some e"
  then obtain album where "get_album_by_id db album_id (u_id user) = Inr album"
    using owns_get by blast
  with a show "delete_album_endpoint env request album_id db =
            \<lparr>out_response = RedirectResponse To_albums 303 None,
             out_db = db, out_log = [Album_delete_error e]\<rparr>"
    by (simp add: delete_album_endpoint_def delete_album_def commit_delete_def)
qed

text \<open>
  The theorem on the example store: a short and a long exception text on an ordinary
  path, a registration whose hashing fails, a deletion whose commit fails.
\<close>

theorem unexpected_exception_handling_witness:
  "fst (general_exception_handler req_alice ''boom'')
     = TemplateResponse Error_html 500 (Some (Internal_error ''boom'')) []
   \<and> fst (general_exception_handler req_alice (replicate 201 CHR ''x''))
     = TemplateResponse Error_html 500
         (Some (Internal_error (replicate 200 CHR ''x'' @ ''...''))) []
   \<and> snd (general_exception_handler req_alice ''boom'') = [Unhandled_exception ''boom'']
   \<and> register_user env_hash_fails req_alice ''carol@example.org'' ''carol'' ''secret''
        ''secret'' db0
     = \<lparr>out_response = TemplateResponse Register_html 500 (Some Registration_failed) [],
        out_db = db0, out_log = [Registration_error (Exception ''hash failure'')]\<rparr>
   \<and> delete_album_endpoint env_commit_fails req_alice 1 db0
     = \<lparr>out_response = RedirectResponse To_albums 303 None,
        out_db = db0, out_log = [Album_delete_error (Exception ''database is locked'')]\<rparr>"
proof -
  have p: "path req_alice \<notin> SYSTEM_PATHS"
    by (simp add: req_alice_def SYSTEM_PATHS_def)
  have t1: "truncated ''boom'' = ''boom''"
    by (simp add: truncated_def)
  have t2: "truncated (replicate 201 CHR ''x'') = replicate 200 CHR ''x'' @ ''...''"
    by (simp add: truncated_def)
  have v: "validate_user_registration ''carol@example.org'' ''carol'' ''secret'' ''secret'' = []"
    by (simp add: validate_user_registration_def)
  have n: "\<not> taken db0 ''carol@example.org'' ''carol''"
    by (simp add: taken_def users0)
  have h: "get_password_hash env_hash_fails ''secret'' = Inl (Exception ''hash failure'')"
    by (simp add: env_hash_fails_def)
  have o: "owns db0 (u_id alice) 1"
    by (simp add: owns_def alice_def albums0)
  have f: "commit_fault env_commit_fails = Some (Exception ''database is locked'')"
    by (simp add: env_commit_fails_def)
  have a: "fst (general_exception_handler req_alice ''boom'')
     = TemplateResponse Error_html 500 (Some (Internal_error ''boom'')) []"
    using unexpected_exception_handling [where request = req_alice and exc = "''boom''"] p t1
    by simp
  have b: "fst (general_exception_handler req_alice (replicate 201 CHR ''x''))
     = TemplateResponse Error_html 500
         (Some (Internal_error (replicate 200 CHR ''x'' @ ''...''))) []"
    using unexpected_exception_handling
      [where request = req_alice and exc = "replicate 201 CHR ''x''"] p t2
    by simp
  have c: "snd (general_exception_handler req_alice ''boom'') = [Unhandled_exception ''boom'']"
    using unexpected_exception_handling [where request = req_alice and exc = "''boom''"]
    by blast
  have d: "register_user env_hash_fails req_alice ''carol@example.org'' ''carol'' ''secret''
        ''secret'' db0
     = \<lparr>out_response = TemplateResponse Register_html 500 (Some Registration_failed) [],
        out_db = db0, out_log = [Registration_error (Exception ''hash failure'')]\<rparr>"
    using unexpected_exception_handling
      [where request = req_alice and email = "''carol@example.org''" and username = "''carol''"
         and password = "''secret''" and confirm_password = "''secret''" and db = db0
         and env = env_hash_fails and e = "Exception ''hash failure''"] v n h
    by blast
  have e: "delete_album_endpoint env_commit_fails req_alice 1 db0
     = \<lparr>out_response = RedirectResponse To_albums 303 None,
        out_db = db0, out_log = [Album_delete_error (Exception ''database is locked'')]\<rparr>"
    using unexpected_exception_handling
      [where request = req_alice and db = db0 and env = env_commit_fails
         and e = "Exception ''database is locked''" and user = alice and album_id = 1]
      current_user_alice_commit_fails o f
    by blast
  show ?thesis using a b c d e by blast
qed

text \<open>
  The claim as stated fails: on the path \<open>/docs\<close> the answer to an unexpected exception
  is not the error page with status 500 but a JSON body with status 404.
\<close>

theorem unexpected_exception_handling_counterexample:
  "general_exception_handler \<lparr>path = ''/docs'', cookies = Map.empty\<rparr> ''boom''
     = (JSONResponse 404 Not_found, [Unhandled_exception ''boom''])
   \<and> status_code (fst (general_exception_handler \<lparr>path = ''/docs'', cookies = Map.empty\<rparr> ''boom''))
       \<noteq> 500"
  by (simp add: general_exception_handler_def SYSTEM_PATHS_def)

section \<open>Search\<close>

lemma like_percent: "like ''%'' s"
  by (induction s) auto

lemma like_literal_prefix:
  "CHR ''%'' \<notin> set q \<Longrightarrow> CHR ''_'' \<notin> set q \<Longrightarrow> like (q @ ''%'') s \<longleftrightarrow> prefix q s"
proof (induction q arbitrary: s)
  case Nil
  then show ?case using like_percent by simp
next
  case (Cons p ps)
  then have ih: "\<And>t. like (ps @ ''%'') t \<longleftrightarrow> prefix ps t" by simp
  from Cons.prems have p: "p \<noteq> CHR ''%''" "p \<noteq> CHR ''_''" by auto
  show ?case
  proof (cases s)
    case Nil
    then show ?thesis using p by simp
  next
    case (Cons c cs)
    then show ?thesis using p ih by (simp add: eq_commute)
  qed
qed

lemma like_percent_Cons: "like (CHR ''%'' # r) s \<longleftrightarrow> (\<exists>t. suffix t s \<and> like r t)"
proof (induction s)
  case Nil
  then show ?case by simp
next
  case (Cons c cs)
  show ?case
  proof
    assume "like (CHR ''%'' # r) (c # cs)"
    then consider "like r (c # cs)" | "like (CHR ''%'' # r) cs" by auto
    then show "\<exists>t. suffix t (c # cs) \<and> like r t"
    proof cases
      case 1
      then show ?thesis by (intro exI [of _ "c # cs"]) simp
    next
      case 2
      then obtain t where t: "suffix t cs" "like r t" using Cons.IH by blast
      then show ?thesis by (intro exI [of _ t]) (simp add: suffix_ConsI)
    qed
  next
    assume "\<exists>t. suffix t (c # cs) \<and> like r t"
    then obtain t where t: "suffix t (c # cs)" "like r t" by blast
    show "like (CHR ''%'' # r) (c # cs)"
    proof (cases "t = c # cs")
      case True
      then show ?thesis using t by simp
    next
      case False
      then have "suffix t cs" using t(1) by (simp add: suffix_Cons)
      then have "like (CHR ''%'' # r) cs" using t(2) Cons.IH by blast
      then show ?thesis by simp
    qed
  qed
qed

lemma like_same_prefix: "like r s \<Longrightarrow> like (q @ r) (q @ s)"
proof (induction q)
  case Nil
  then show ?case by simp
next
  case (Cons p ps)
  then have ih: "like (ps @ r) (ps @ s)" by simp
  show ?case
  proof (cases "p = CHR ''%''")
    case False
    then show ?thesis using ih by simp
  next
    case True
    have "suffix (ps @ s) (p # ps @ s)" by (simp add: suffix_ConsI)
    then have "\<exists>t. suffix t (p # ps @ s) \<and> like (ps @ r) t" using ih by blast
    then have "like (CHR ''%'' # ps @ r) (p # ps @ s)"
      by (simp only: like_percent_Cons)
    then show ?thesis using True by simp
  qed
qed

lemma sublist_like:
  assumes "sublist q s"
  shows "like (CHR ''%'' # q @ ''%'') s"
proof -
  obtain pre post where s: "s = pre @ q @ post"
    using assms by (auto simp: sublist_def)
  have "like (q @ ''%'') (q @ post)"
    using like_percent by (rule like_same_prefix)
  moreover have "suffix (q @ post) s" by (simp add: s suffix_def)
  ultimately have "\<exists>t. suffix t s \<and> like (q @ ''%'') t" by blast
  then show ?thesis by (simp only: like_percent_Cons)
qed

lemma like_contains:
  assumes "CHR ''%'' \<notin> set q" "CHR ''_'' \<notin> set q"
  shows "like (CHR ''%'' # q @ ''%'') s \<longleftrightarrow> sublist q s"
proof -
  have "like (CHR ''%'' # q @ ''%'') s \<longleftrightarrow> (\<exists>t. suffix t s \<and> like (q @ ''%'') t)"
    by (rule like_percent_Cons)
  also have "\<dots> \<longleftrightarrow> (\<exists>t. suffix t s \<and> prefix q t)"
    using assms by (simp add: like_literal_prefix)
  also have "\<dots> \<longleftrightarrow> sublist q s"
    by (auto simp: sublist_def suffix_def prefix_def)
  finally show ?thesis .
qed

lemma lower_char_other:
  assumes "(of_char d :: nat) \<notin> {65..90} \<union> {97..122}"
  shows "lower_char c = d \<longleftrightarrow> c = d"
proof (cases "65 \<le> (of_char c :: nat) \<and> (of_char c :: nat) \<le> 90")
  case False
  then show ?thesis by (auto simp: lower_char_def Let_def)
next
  case True
  then have l: "lower_char c = char_of (of_char c + 32 :: nat)"
    by (simp add: lower_char_def Let_def)
  have "(of_char (lower_char c) :: nat) = of_char c + 32"
    unfolding l using True by simp
  then have "(of_char (lower_char c) :: nat) \<in> {97..122}" using True by simp
  then have "lower_char c \<noteq> d" using assms by auto
  moreover have "c \<noteq> d" using True assms by auto
  ultimately show ?thesis by simp
qed

lemma lower_char_wild:
  "CHR ''%'' = lower_char c \<longleftrightarrow> c = CHR ''%''"
  "CHR ''_'' = lower_char c \<longleftrightarrow> c = CHR ''_''"
  using lower_char_other [of "CHR ''%''" c] lower_char_other [of "CHR ''_''" c]
  by auto

lemma lower_wildcard_free:
  assumes "wildcard_free q"
  shows "wildcard_free (lower q)"
proof -
  have "CHR ''%'' \<notin> set (lower q)"
  proof
    assume "CHR ''%'' \<in> set (lower q)"
    then obtain c where "c \<in> set q" "CHR ''%'' = lower_char c"
      by (auto simp: lower_def)
    then show False using assms by (simp add: lower_char_wild wildcard_free_def)
  qed
  moreover have "CHR ''_'' \<notin> set (lower q)"
  proof
    assume "CHR ''_'' \<in> set (lower q)"
    then obtain c where "c \<in> set q" "CHR ''_'' = lower_char c"
      by (auto simp: lower_def)
    then show False using assms by (simp add: lower_char_wild wildcard_free_def)
  qed
  ultimately show ?thesis by (simp add: wildcard_free_def)
qed

lemma lower_pattern: "lower (CHR ''%'' # q @ ''%'') = CHR ''%'' # lower q @ ''%''"
proof -
  have "lower_char CHR ''%'' = CHR ''%''" by code_simp
  then show ?thesis by (simp add: lower_def)
qed

lemma ilike_contains:
  assumes "wildcard_free q"
  shows "ilike col (CHR ''%'' # q @ ''%'') = contains_ci q col"
proof (cases col)
  case None
  then show ?thesis by (simp add: ilike_def contains_ci_def)
next
  case (Some s)
  have "wildcard_free (lower q)" using assms by (rule lower_wildcard_free)
  then have "like (CHR ''%'' # lower q @ ''%'') (lower s) \<longleftrightarrow> sublist (lower q) (lower s)"
    by (intro like_contains) (simp_all add: wildcard_free_def)
  then show ?thesis
    using Some by (simp add: ilike_def contains_ci_def lower_pattern)
qed

lemma contains_ilike:
  assumes "contains_ci q col"
  shows "ilike col (CHR ''%'' # q @ ''%'')"
proof (cases col)
  case None
  then show ?thesis using assms by (simp add: contains_ci_def)
next
  case (Some s)
  then have "sublist (lower q) (lower s)" using assms by (simp add: contains_ci_def)
  then have "like (CHR ''%'' # lower q @ ''%'') (lower s)" by (rule sublist_like)
  then show ?thesis
    using Some by (simp add: ilike_def lower_pattern)
qed


lemma matches_ilike:
  assumes "matches user_id query a"
  shows "a_owner_id a = Some user_id \<and>
         (ilike (a_title a) (CHR ''%'' # query @ ''%'') \<or>
          ilike (a_artist a) (CHR ''%'' # query @ ''%'') \<or>
          ilike (a_genre a) (CHR ''%'' # query @ ''%''))"
  using assms contains_ilike [of query "a_title a"] contains_ilike [of query "a_artist a"]
    contains_ilike [of query "a_genre a"]
  unfolding matches_def by blast

text \<open>
  Searching a user's albums for a query returns every album of the user's whose title,
  artist or genre contains the query as a substring, the case of ASCII letters ignored,
  and returns only albums of that user; for a query without \<open>%\<close> and \<open>_\<close> it returns
  exactly the matching albums, in the order of the table. The album page asked with a
  query that is not empty shows the result of this search.
\<close>

theorem search_albums_substring:
  "(\<forall>a\<in>set (tbl_albums db). matches user_id query a \<longrightarrow> a \<in> set (search_albums db user_id query))
   \<and> (\<forall>a\<in>set (search_albums db user_id query). a \<in> set (tbl_albums db) \<and> a_owner_id a = Some user_id)
   \<and> (wildcard_free query \<longrightarrow>
        search_albums db user_id query = filter (matches user_id query) (tbl_albums db))
   \<and> (get_current_user_from_cookie env request db = Some user \<and> query \<noteq> []
        \<longrightarrow> albums_page env request db (Some query) =
              \<lparr>out_response =
                 TemplateResponse Albums_html 200 None (search_albums db (u_id user) query),
               out_db = db, out_log = []\<rparr>)"
proof (intro conjI ballI impI)
  fix a assume "a \<in> set (tbl_albums db)" "matches user_id query a"
  then show "a \<in> set (search_albums db user_id query)"
    using matches_ilike [of user_id query a] by (simp add: search_albums_def)
next
  fix a assume "a \<in> set (search_albums db user_id query)"
  then show "a \<in> set (tbl_albums db)" "a_owner_id a = Some user_id"
    by (simp_all add: search_albums_def)
next
  assume "wildcard_free query"
  then show "search_albums db user_id query = filter (matches user_id query) (tbl_albums db)"
    by (simp add: search_albums_def matches_def [abs_def] ilike_contains)
next
  assume "get_current_user_from_cookie env request db = Some user \<and> query \<noteq> []"
  then show "albums_page env request db (Some query) =
              \<lparr>out_response =
                 TemplateResponse Albums_html 200 None (search_albums db (u_id user) query),
               out_db = db, out_log = []\<rparr>"
    by (simp add: albums_page_def)
qed

text \<open>
  The theorem on the example store: the query \<open>blue\<close> finds the first user's
  \<open>Kind of Blue\<close> and not the second user's \<open>Blue Train\<close>; the query \<open>xyz\<close> finds nothing.
\<close>

theorem search_albums_substring_witness:
  "wildcard_free ''blue''
   \<and> search_albums db0 1 ''blue'' = [album2]
   \<and> search_albums db0 1 ''xyz'' = []
   \<and> album2 \<in> set (tbl_albums db0)
   \<and> matches 1 ''blue'' album2"
proof -
  have w: "wildcard_free ''blue''" by (simp add: wildcard_free_def)
  have w': "wildcard_free ''xyz''" by (simp add: wildcard_free_def)
  have b1: "contains_ci ''blue'' (Some ''Kind of Blue'')" by code_simp
  have b2: "\<not> contains_ci ''blue'' (Some ''Abbey Road'')" by code_simp
  have b3: "\<not> contains_ci ''blue'' (Some ''The Beatles'')" by code_simp
  have b4: "\<not> contains_ci ''blue'' (Some ''Rock'')" by code_simp
  have x1: "\<not> contains_ci ''xyz'' (Some ''Abbey Road'')" by code_simp
  have x2: "\<not> contains_ci ''xyz'' (Some ''The Beatles'')" by code_simp
  have x3: "\<not> contains_ci ''xyz'' (Some ''Rock'')" by code_simp
  have x4: "\<not> contains_ci ''xyz'' (Some ''Kind of Blue'')" by code_simp
  have x5: "\<not> contains_ci ''xyz'' (Some ''Miles Davis'')" by code_simp
  have x6: "\<not> contains_ci ''xyz'' (Some ''Jazz'')" by code_simp
  have m: "matches 1 ''blue'' album2"
    using b1 by (simp add: matches_def album2_def)
  have i: "album2 \<in> set (tbl_albums db0)"
    by (simp add: db0_def)
  have f: "filter (matches 1 ''blue'') (tbl_albums db0) = [album2]"
    using b1 b2 b3 b4 by (simp add: matches_def albums0)
  have f': "filter (matches 1 ''xyz'') (tbl_albums db0) = []"
    using x1 x2 x3 x4 x5 x6 by (simp add: matches_def albums0)
  have "search_albums db0 1 ''blue'' = [album2]"
    using search_albums_substring [of db0 1 "''blue''"] w f by simp
  moreover have "search_albums db0 1 ''xyz'' = []"
    using search_albums_substring [of db0 1 "''xyz''"] w' f' by simp
  ultimately show ?thesis using w m i by simp
qed

lemma ilike_abbey_road: "ilike (Some ''Abbey Road'') ''%_%''"
  by code_simp

lemma ilike_kind_of_blue: "ilike (Some ''Kind of Blue'') ''%_%''"
  by code_simp

text \<open>
  C3 at the query \<open>_\<close>. The search returns both albums of the first user, although no
  title, artist or genre of theirs contains an underscore: the query is put into the
  \<open>LIKE\<close> pattern as it is, and \<open>_\<close> stands there for any one character.
\<close>

theorem search_albums_wildcard_query:
  "search_albums db0 1 ''_'' = [album1, album2]
   \<and> \<not> contains_ci ''_'' (a_title album1)
   \<and> \<not> contains_ci ''_'' (a_artist album1)
   \<and> \<not> contains_ci ''_'' (a_genre album1)
   \<and> filter (matches 1 ''_'') (tbl_albums db0) = []"
proof -
  have s: "search_albums db0 1 ''_'' = [album1, album2]"
    using ilike_abbey_road ilike_kind_of_blue by (simp add: search_albums_def albums0)
  have n: "\<not> contains_ci ''_'' None" by (simp add: contains_ci_def)
  have t1: "\<not> contains_ci ''_'' (Some ''Abbey Road'')" by code_simp
  have t2: "\<not> contains_ci ''_'' (Some ''The Beatles'')" by code_simp
  have t3: "\<not> contains_ci ''_'' (Some ''Rock'')" by code_simp
  have t4: "\<not> contains_ci ''_'' (Some ''Kind of Blue'')" by code_simp
  have t5: "\<not> contains_ci ''_'' (Some ''Miles Davis'')" by code_simp
  have t6: "\<not> contains_ci ''_'' (Some ''Jazz'')" by code_simp
  have f: "filter (matches 1 ''_'') (tbl_albums db0) = []"
    using n t1 t2 t3 t4 t5 t6 by (simp add: matches_def albums0)
  show ?thesis using s t1 t2 t3 f by (simp add: album1_def)
qed

section \<open>The owner of an album\<close>

lemma fold_max_ge: "m \<le> fold max ids (m::int)"
proof (induction ids arbitrary: m)
  case Nil
  then show ?case by simp
next
  case (Cons x xs)
  have "m \<le> max x m" by simp
  also have "\<dots> \<le> fold max xs (max x m)" by (rule Cons.IH)
  finally show ?case by simp
qed

lemma fold_max_mem: "x \<in> set ids \<Longrightarrow> x \<le> fold max ids (m::int)"
proof (induction ids arbitrary: m)
  case Nil
  then show ?case by simp
next
  case (Cons y ys)
  show ?case
  proof (cases "x = y")
    case True
    have "x \<le> max y m" using True by simp
    also have "\<dots> \<le> fold max ys (max y m)" by (rule fold_max_ge)
    finally show ?thesis by simp
  next
    case False
    then have "x \<in> set ys" using Cons.prems by simp
    then show ?thesis using Cons.IH by simp
  qed
qed

lemma next_id_fresh: "next_id ids \<notin> set ids"
proof
  assume "next_id ids \<in> set ids"
  then have "next_id ids \<le> fold max ids 0" by (rule fold_max_mem)
  then show False by (simp add: next_id_def)
qed

lemma register_user_albums:
  "tbl_albums (out_db (register_user env request email username password confirm_password db))
     = tbl_albums db"
  by (auto simp: register_user_def commit_new_user_def Let_def
        split: sum.splits option.splits if_splits)

lemma create_new_album_cases:
  "out_db (create_new_album env request title artist genre release_year
           record_label country condition barcode notes db) = db
   \<or> (\<exists>i. out_response (create_new_album env request title artist genre release_year
           record_label country condition barcode notes db)
         = RedirectResponse (To_album i) 303 None)"
  by (auto simp: create_new_album_def Let_def split: option.splits sum.splits if_splits)

lemma create_new_album_requester:
  assumes "out_response (create_new_album env request title artist genre release_year
           record_label country condition barcode notes db) = RedirectResponse (To_album i) c k"
  shows "\<exists>user. get_current_user_from_cookie env request db = Some user"
  using assms
  by (auto simp: create_new_album_def Let_def split: option.splits sum.splits if_splits)

lemma delete_album_endpoint_albums:
  "set (tbl_albums (out_db (delete_album_endpoint env request album_id db)))
     \<subseteq> set (tbl_albums db)"
  by (auto simp: delete_album_endpoint_def delete_album_def commit_delete_def
        split: option.splits sum.splits)

lemma edit_album_cases:
  "out_db (edit_album env request album_id title artist genre release_year
           record_label country condition barcode notes db) = db
   \<or> (\<exists>j. out_response (edit_album env request album_id title artist genre release_year
           record_label country condition barcode notes db)
         = RedirectResponse (To_album j) 303 None)"
  by (auto simp: edit_album_def Let_def split: option.splits sum.splits if_splits exn.splits)

lemma edit_album_found:
  assumes "out_response (edit_album env request album_id title artist genre release_year
           record_label country condition barcode notes db) = RedirectResponse (To_album j) c k"
  shows "\<exists>user old. get_current_user_from_cookie env request db = Some user
           \<and> get_album_by_id db album_id (u_id user) = Inr old"
  using assms
  by (auto simp: edit_album_def update_album_def Let_def
        split: option.splits sum.splits if_splits exn.splits)

lemma edit_album_rows:
  assumes "a' \<in> set (tbl_albums (out_db (edit_album env request album_id title artist genre
             release_year record_label country condition barcode notes db)))"
  shows "\<exists>a\<in>set (tbl_albums db). a_id a = a_id a' \<and> a_owner_id a = a_owner_id a'"
proof (cases "\<exists>j c k. out_response (edit_album env request album_id title artist genre release_year
           record_label country condition barcode notes db) = RedirectResponse (To_album j) c k")
  case False
  then have "out_db (edit_album env request album_id title artist genre release_year
           record_label country condition barcode notes db) = db"
    using edit_album_cases [of env request album_id title artist genre release_year
        record_label country condition barcode "notes" db]
    by blast
  then show ?thesis using assms by auto
next
  case True
  then obtain j c k where r: "out_response (edit_album env request album_id title artist genre
      release_year record_label country condition barcode notes db)
      = RedirectResponse (To_album j) c k"
    by blast
  then obtain user old where u: "get_current_user_from_cookie env request db = Some user"
    and g: "get_album_by_id db album_id (u_id user) = Inr old"
    using edit_album_found by blast
  note d = edit_album_stored [OF u g r]
  have o: "old \<in> set (tbl_albums db)" "a_id old = album_id"
    using g by (auto dest: get_album_by_id_Inr)
  show ?thesis
  proof (cases "a' \<in> set (tbl_albums db)")
    case True
    then show ?thesis by blast
  next
    case False
    then have "a_id a' = a_id old \<and> a_owner_id a' = a_owner_id old"
      using assms o unfolding d by (auto split: if_splits)
    then show ?thesis using o by (intro bexI [of _ old]) simp_all
  qed
qed

lemma reachable_owners_recorded: "reachable db creator \<Longrightarrow> owners_recorded db creator"
proof (induction rule: reachable.induct)
  case start
  then show ?case by (simp add: owners_recorded_def)
next
  case (register db creator env request email username password confirm_password)
  then show ?case by (simp add: owners_recorded_def register_user_albums)
next
  case (create db creator out env request title artist genre release_year record_label country
      condition barcode notes')
  show ?case
  proof (cases "\<exists>i c k. out_response out = RedirectResponse (To_album i) c k")
    case False
    then have "out_db out = db"
      unfolding create(2)
      using create_new_album_cases [of env request title artist genre release_year
          record_label country condition barcode notes' db]
      by blast
    moreover have "created_by creator out (get_current_user_from_cookie env request db) = creator"
      using False
      by (auto simp: created_by_def split: response.splits location.splits option.splits)
    ultimately show ?thesis using create.IH by simp
  next
    case True
    then obtain i c k where r: "out_response out = RedirectResponse (To_album i) c k" by blast
    then obtain user where u: "get_current_user_from_cookie env request db = Some user"
      using create_new_album_requester unfolding create(2) by blast
    note s = create_new_album_stored [OF u r [unfolded create(2)], folded create(2)]
    have cb: "created_by creator out (get_current_user_from_cookie env request db)
                = creator(i \<mapsto> u_id user)"
      using r u by (simp add: created_by_def)
    have fresh: "\<forall>a\<in>set (tbl_albums db). a_id a \<noteq> i"
    proof
      fix a assume "a \<in> set (tbl_albums db)"
      then have "a_id a \<in> set (map a_id (tbl_albums db))" by simp
      moreover have "i \<notin> set (map a_id (tbl_albums db))"
        using s next_id_fresh [of "map a_id (tbl_albums db)"] by simp
      ultimately show "a_id a \<noteq> i" by metis
    qed
    show ?thesis
      unfolding cb
      using create.IH fresh s
      by (auto simp: owners_recorded_def)
  qed
next
  case (edit db creator env request album_id title artist genre release_year record_label country
      condition barcode notes')
  show ?case
    unfolding owners_recorded_def
  proof
    fix a' assume "a' \<in> set (tbl_albums (out_db (edit_album env request album_id title artist
      genre release_year record_label country condition barcode notes' db)))"
    then obtain a where "a \<in> set (tbl_albums db)" "a_id a = a_id a'"
      "a_owner_id a = a_owner_id a'"
      using edit_album_rows by blast
    moreover from this have "a_owner_id a \<noteq> None \<and> creator (a_id a) = a_owner_id a"
      using edit.IH unfolding owners_recorded_def by blast
    ultimately show "a_owner_id a' \<noteq> None \<and> creator (a_id a') = a_owner_id a'"
      by metis
  qed
next
  case (delete db creator env request album_id)
  then show ?case
    using delete_album_endpoint_albums [of env request album_id db]
    by (auto simp: owners_recorded_def)
qed

lemma register_alice:
  "out_db (register_user env0 req_alice ''alice@example.org'' ''alice'' ''secret'' ''secret''
     \<lparr>tbl_users = [], tbl_albums = []\<rparr>) = db_one"
proof -
  have v: "validate_user_registration ''alice@example.org'' ''alice'' ''secret'' ''secret'' = []"
    by (simp add: validate_user_registration_def)
  show ?thesis
    by (simp add: register_user_def v get_user_by_email_def get_user_by_username_def first_def
          commit_new_user_def env0_def next_id_def db_one_def alice_new_def Let_def)
qed

lemma current_user_alice_new: "get_current_user_from_cookie env0 req_alice db_one = Some alice_new"
  by (simp add: get_current_user_from_cookie_def first_def env0_def req_alice_def db_one_def
        alice_new_def)

lemma create_low_first:
  "create_new_album env0 req_alice ''Low'' ''David Bowie'' None None None None None None None
     db_one
   = \<lparr>out_response = RedirectResponse (To_album 1) 303 None, out_db = db_two, out_log = []\<rparr>"
proof -
  have v: "validate_album_data (year_now env0) ''Low'' ''David Bowie'' None = []"
    by (simp add: validate_album_data_def strip_def isspace_def)
  have f: "commit_fault env0 = None" "utcnow env0 = 300"
    by (simp_all add: env0_def)
  have n: "next_id (map a_id (tbl_albums db_one)) = 1"
    by (simp add: next_id_def db_one_def)
  have s: "strip ''Low'' = ''Low''" "strip ''David Bowie'' = ''David Bowie''"
    by (simp_all add: strip_def isspace_def)
  have u: "u_id alice_new = 1"
    by (simp add: alice_new_def)
  show ?thesis
    by (simp add: create_new_album_def current_user_alice_new v create_album_def Album_form
          commit_new_album_def f n s u strip_if_def Let_def)
       (simp add: db_one_def db_two_def album_low_def)
qed

text \<open>
  C2. An album created through \<open>POST /albums/new\<close> is stored with the authenticated
  requester as its owner. No route changes an owner: after an edit every stored album
  has the identifier and the owner of an album stored before, a deletion only removes
  albums, and a registration leaves the albums as they are. Hence in every reachable
  state every album has an owner, and it is the user who created the album.
\<close>

theorem owner_is_creator:
  "(get_current_user_from_cookie env request db = Some user
      \<and> out_response (create_new_album env request title artist genre release_year
           record_label country condition barcode notes db) = RedirectResponse (To_album i) c k
    \<longrightarrow> (\<exists>album.
           tbl_albums (out_db (create_new_album env request title artist genre release_year
             record_label country condition barcode notes db)) = tbl_albums db @ [album]
         \<and> a_id album = i \<and> a_owner_id album = Some (u_id user)))
   \<and> (\<forall>a'\<in>set (tbl_albums (out_db (edit_album env request album_id title artist genre
            release_year record_label country condition barcode notes db))).
        \<exists>a\<in>set (tbl_albums db). a_id a = a_id a' \<and> a_owner_id a = a_owner_id a')
   \<and> set (tbl_albums (out_db (delete_album_endpoint env request album_id db)))
        \<subseteq> set (tbl_albums db)
   \<and> tbl_albums (out_db (register_user env request email username password confirm_password db))
        = tbl_albums db
   \<and> (reachable db creator \<longrightarrow>
        (\<forall>a\<in>set (tbl_albums db). a_owner_id a \<noteq> None \<and> creator (a_id a) = a_owner_id a))"
proof (intro conjI impI)
  assume a: "get_current_user_from_cookie env request db = Some user
      \<and> out_response (create_new_album env request title artist genre release_year
           record_label country condition barcode notes db) = RedirectResponse (To_album i) c k"
  show "\<exists>album.
           tbl_albums (out_db (create_new_album env request title artist genre release_year
             record_label country condition barcode notes db)) = tbl_albums db @ [album]
         \<and> a_id album = i \<and> a_owner_id album = Some (u_id user)"
    using create_new_album_stored [OF conjunct1 [OF a] conjunct2 [OF a]] by simp
next
  show "\<forall>a'\<in>set (tbl_albums (out_db (edit_album env request album_id title artist genre
            release_year record_label country condition barcode notes db))).
        \<exists>a\<in>set (tbl_albums db). a_id a = a_id a' \<and> a_owner_id a = a_owner_id a'"
    using edit_album_rows by blast
next
  show "set (tbl_albums (out_db (delete_album_endpoint env request album_id db)))
        \<subseteq> set (tbl_albums db)"
    by (rule delete_album_endpoint_albums)
next
  show "tbl_albums (out_db (register_user env request email username password confirm_password db))
        = tbl_albums db"
    by (rule register_user_albums)
next
  assume "reachable db creator"
  then show "\<forall>a\<in>set (tbl_albums db). a_owner_id a \<noteq> None \<and> creator (a_id a) = a_owner_id a"
    using reachable_owners_recorded unfolding owners_recorded_def by blast
qed

text \<open>
  The theorem on a run from the empty store: a user registers and creates an album.
\<close>

theorem owner_is_creator_witness:
  "reachable db_two creator_two
   \<and> album_low \<in> set (tbl_albums db_two)
   \<and> a_owner_id album_low = Some (u_id alice_new)
   \<and> creator_two (a_id album_low) = Some (u_id alice_new)"
proof -
  have r0: "reachable \<lparr>tbl_users = [], tbl_albums = []\<rparr> Map.empty"
    by (rule reachable.start)
  have r1: "reachable db_one Map.empty"
    using reachable.register [OF r0, of env0 req_alice "''alice@example.org''" "''alice''"
        "''secret''" "''secret''"]
    by (simp only: register_alice)
  have c: "created_by Map.empty
             \<lparr>out_response = RedirectResponse (To_album 1) 303 None, out_db = db_two,
              out_log = []\<rparr> (Some alice_new) = creator_two"
    by (simp add: created_by_def creator_two_def alice_new_def)
  have r2: "reachable db_two creator_two"
    using reachable.create [OF r1 create_low_first [symmetric]]
    by (simp add: current_user_alice_new c)
  have m: "album_low \<in> set (tbl_albums db_two)"
    by (simp add: db_two_def)
  have o: "a_owner_id album_low = Some (u_id alice_new)"
    by (simp add: album_low_def alice_new_def)
  have "reachable db_two creator_two \<longrightarrow>
          (\<forall>a\<in>set (tbl_albums db_two).
              a_owner_id a \<noteq> None \<and> creator_two (a_id a) = a_owner_id a)"
    by (rule owner_is_creator [where db = db_two and creator = creator_two,
          THEN conjunct2, THEN conjunct2, THEN conjunct2, THEN conjunct2])
  then have "creator_two (a_id album_low) = a_owner_id album_low"
    using r2 m by blast
  then show ?thesis using r2 m o by simp
qed

end
